theory Spec2Isabelle
  imports Main "HOL-Library.Sublist" "HOL-Library.AList"
begin

section \<open>TinyFS: a shallow embedding of \<^verbatim>\<open>ghostforge/tinyfs\<close>\<close>

text \<open>
  The development embeds \<^verbatim>\<open>ghostforge/tinyfs/client.py\<close>, \<^verbatim>\<open>models.py\<close>,
  \<^verbatim>\<open>exceptions.py\<close> and \<^verbatim>\<open>cli.py\<close>. Conventions:
  \<^item> Python \<^verbatim>\<open>str\<close> is \<open>string\<close>; one \<open>char\<close> stands for one code point below 256.
  \<^item> The operating system is a POSIX file tree without symbolic links, hard links,
    permissions or devices; \<^verbatim>\<open>Path.resolve()\<close> is therefore the lexical normal form.
  \<^item> Every method takes the client and the world and returns the result (\<open>Inl\<close> for a
    raised exception) with the updated client and world.
  \<^item> Logging and wall-clock values (\<^verbatim>\<open>ActionRecord.timestamp\<close>,
    \<^verbatim>\<open>FileInfo.modified_time\<close>) are left out.
  \<^item> Path strings hold no NUL character and no name beyond the system's length limit:
    the errors the system raises for those are not modelled.
\<close>

subsection \<open>Exceptions (\<^verbatim>\<open>exceptions.py\<close> and the builtins the client meets)\<close>

datatype exn_class =
    Exception | OSError | ValueError
  | FileNotFoundError | FileExistsError | IsADirectoryError | NotADirectoryError
  | ShutilError | SameFileError
  | TinyFSError | SecurityError | PathValidationError | OperationNotAllowedError
  | SandboxError | CommandExecutionError | OperationCancelledError

text \<open>The method resolution order of each class, as the class statements declare it.\<close>

fun mro :: "exn_class \<Rightarrow> exn_class list" where
  "mro Exception = [Exception]"
| "mro OSError = [OSError, Exception]"
| "mro ValueError = [ValueError, Exception]"
| "mro FileNotFoundError = [FileNotFoundError, OSError, Exception]"
| "mro FileExistsError = [FileExistsError, OSError, Exception]"
| "mro IsADirectoryError = [IsADirectoryError, OSError, Exception]"
| "mro NotADirectoryError = [NotADirectoryError, OSError, Exception]"
| "mro ShutilError = [ShutilError, OSError, Exception]"
| "mro SameFileError = [SameFileError, ShutilError, OSError, Exception]"
| "mro TinyFSError = [TinyFSError, Exception]"
| "mro SecurityError = [SecurityError, TinyFSError, Exception]"
| "mro PathValidationError = [PathValidationError, SecurityError, TinyFSError, Exception]"
| "mro OperationNotAllowedError = [OperationNotAllowedError, SecurityError, TinyFSError, Exception]"
| "mro SandboxError = [SandboxError, TinyFSError, Exception]"
| "mro CommandExecutionError = [CommandExecutionError, TinyFSError, Exception]"
| "mro OperationCancelledError = [OperationCancelledError, TinyFSError, Exception]"

datatype exn = Exn (cls: exn_class) (msg: string)

definition isinstance :: "exn \<Rightarrow> exn_class \<Rightarrow> bool" where
  "isinstance e k = (k \<in> set (mro (cls e)))"

subsection \<open>Strings and paths\<close>

type_synonym path = "string list"

definition slash :: char where
  "slash = CHR ''/''"

definition apostrophe :: char where
  "apostrophe = CHR 0x27"

definition newline :: char where
  "newline = CHR 0x0A"

definition carriage_return :: char where
  "carriage_return = CHR 0x0D"

definition quoted :: "string \<Rightarrow> string" where
  "quoted s = apostrophe # s @ [apostrophe]"

text \<open>\<^verbatim>\<open>s.split(sep)\<close> for a one-character separator.\<close>

fun split_at :: "char \<Rightarrow> string \<Rightarrow> string \<Rightarrow> string list" where
  "split_at sep [] acc = [rev acc]"
| "split_at sep (x # xs) acc =
     (if x = sep then rev acc # split_at sep xs [] else split_at sep xs (x # acc))"

definition split_path :: "string \<Rightarrow> string list" where
  "split_path s = split_at slash s []"

text \<open>\<^verbatim>\<open>'/'.join(parts)\<close>.\<close>

fun join_path :: "string list \<Rightarrow> string" where
  "join_path [] = []"
| "join_path [s] = s"
| "join_path (s # t # ss) = s @ slash # join_path (t # ss)"

text \<open>\<^verbatim>\<open>str(p)\<close> of an absolute path given by its segments below the root.\<close>

definition str_path :: "path \<Rightarrow> string" where
  "str_path p = slash # join_path p"

text \<open>\<^verbatim>\<open>str(p)\<close> of a relative path; the empty relative path prints as a dot.\<close>

definition str_rel :: "string list \<Rightarrow> string" where
  "str_rel p = (if p = [] then ''.'' else join_path p)"

definition isabs :: "string \<Rightarrow> bool" where
  "isabs s = (case s of [] \<Rightarrow> False | x # _ \<Rightarrow> x = slash)"

text \<open>
  One component of \<^verbatim>\<open>os.path.realpath\<close> on a tree without symbolic links: empty and
  dot components are skipped, a double dot goes to the parent (the root is its own
  parent), any other name is appended.
\<close>

definition resolve_step :: "path \<Rightarrow> string \<Rightarrow> path" where
  "resolve_step p s =
     (if s = [] \<or> s = ''.'' then p else if s = ''..'' then butlast p else p @ [s])"

definition resolve :: "path \<Rightarrow> string \<Rightarrow> path" where
  "resolve base s = foldl resolve_step base (split_path s)"

text \<open>
  A caller passes \<^verbatim>\<open>Union[str, Path]\<close>: \<open>PStr s\<close> is the string \<open>s\<close>, \<open>PPath s\<close> is the
  object \<^verbatim>\<open>Path(s)\<close>.
\<close>

datatype path_arg = PStr string | PPath string

text \<open>
  \<^verbatim>\<open>str(Path(s))\<close>: pathlib drops empty and dot components when it parses (and keeps
  exactly two leading slashes, which the printed form here does not show).
\<close>

definition str_pure :: "string \<Rightarrow> string" where
  "str_pure s =
     (let parts = filter (\<lambda>x. x \<noteq> [] \<and> x \<noteq> ''.'') (split_path s)
      in if isabs s then str_path parts else str_rel parts)"

fun str_arg :: "path_arg \<Rightarrow> string" where
  "str_arg (PStr s) = s"
| "str_arg (PPath s) = str_pure s"

text \<open>
  \<^verbatim>\<open>target.relative_to(base)\<close> compares whole segments and raises ValueError (the
  message is the one of Python 3.12; earlier versions add a clause to it).
\<close>

definition relative_to :: "path \<Rightarrow> path \<Rightarrow> exn + string list" where
  "relative_to target base =
     (if prefix base target then Inr (drop (length base) target)
      else Inl (Exn ValueError
        (quoted (str_path target) @ '' is not in the subpath of '' @ quoted (str_path base))))"

text \<open>\<^verbatim>\<open>str(n)\<close> of a natural number.\<close>

fun str_nat :: "nat \<Rightarrow> string" where
  "str_nat n =
     (if n < 10 then [char_of (48 + n)] else str_nat (n div 10) @ [char_of (48 + n mod 10)])"

declare str_nat.simps [simp del]

subsection \<open>Data model (\<^verbatim>\<open>models.py\<close>)\<close>

datatype ActionType = READ | WRITE | EXECUTE | GIT | ENV

record ActionRecord =
  action_type :: ActionType
  path :: "string option"
  command :: "string option"
  success :: bool
  error_message :: "string option"
  user_approved :: bool

text \<open>\<^verbatim>\<open>ActionRecord.create(action_type, path=p)\<close> with the other defaults.\<close>

definition ActionRecord_create :: "ActionType \<Rightarrow> string option \<Rightarrow> ActionRecord" where
  "ActionRecord_create t p =
     \<lparr>action_type = t, path = p, command = None, success = True,
      error_message = None, user_approved = False\<rparr>"

record FileInfo =
  fi_name :: string
  fi_path :: string
  fi_is_directory :: bool
  fi_size :: "nat option"

subsection \<open>The client state and its audit log\<close>

record client =
  workspace_dir :: path
  auto_confirm :: bool
  history_size :: int
  action_history :: "ActionRecord list"

text \<open>The slice \<^verbatim>\<open>xs[i:]\<close> of Python, for any integer \<open>i\<close>.\<close>

definition slice_from :: "int \<Rightarrow> 'a list \<Rightarrow> 'a list" where
  "slice_from i xs =
     (if i < 0 then drop (nat (int (length xs) + i)) xs else drop (nat i) xs)"

definition record_action :: "client \<Rightarrow> ActionRecord \<Rightarrow> client" where
  "record_action c action =
     (let h = action_history c @ [action]
      in if int (length h) > history_size c
         then c\<lparr>action_history := slice_from (- history_size c) h\<rparr>
         else c\<lparr>action_history := h\<rparr>)"

text \<open>
  \<^verbatim>\<open>get_history\<close> returns \<^verbatim>\<open>self.action_history.copy()\<close>. On values a copy is the list
  itself; which list object the caller receives is the subject of the heap model below.
\<close>

definition get_history :: "client \<Rightarrow> ActionRecord list" where
  "get_history c = action_history c"

text \<open>
  \<^verbatim>\<open>_request_confirmation\<close>: both branches return True (the second one after a log
  line and a TODO).
\<close>

definition request_confirmation :: "client \<Rightarrow> string \<Rightarrow> string \<Rightarrow> bool" where
  "request_confirmation c operation details = (if auto_confirm c then True else True)"

subsection \<open>The file tree and the system calls the client uses\<close>

text \<open>
  A node is a regular file with its text or a directory with its entries. A path is the
  list of names below the root. A \<open>File\<close> holds the decoded text of the file; on POSIX
  writing in text mode stores the text as it is.
\<close>

datatype node = File string | Dir "(string \<times> node) list"

datatype errno = ENOENT | EEXIST | ENOTDIR | EISDIR | EINVAL | ENOTEMPTY

record world =
  root :: node
  cwd :: path

text \<open>Path lookup as the kernel walks it: component by component.\<close>

fun stat :: "node \<Rightarrow> path \<Rightarrow> errno + node" where
  "stat n [] = Inr n"
| "stat (File c) (s # p) = Inl ENOTDIR"
| "stat (Dir es) (s # p) = (case map_of es s of None \<Rightarrow> Inl ENOENT | Some m \<Rightarrow> stat m p)"

text \<open>\<^verbatim>\<open>Path.exists\<close>, \<^verbatim>\<open>Path.is_dir\<close>, \<^verbatim>\<open>Path.is_file\<close>: a failed stat is False.\<close>

definition exists :: "node \<Rightarrow> path \<Rightarrow> bool" where
  "exists t p = (case stat t p of Inl _ \<Rightarrow> False | Inr _ \<Rightarrow> True)"

definition is_dir :: "node \<Rightarrow> path \<Rightarrow> bool" where
  "is_dir t p = (case stat t p of Inr (Dir _) \<Rightarrow> True | _ \<Rightarrow> False)"

definition is_file :: "node \<Rightarrow> path \<Rightarrow> bool" where
  "is_file t p = (case stat t p of Inr (File _) \<Rightarrow> True | _ \<Rightarrow> False)"

text \<open>
  \<open>put t p n\<close> stores node \<open>n\<close> under path \<open>p\<close> and \<open>del t p\<close> removes the entry at \<open>p\<close>;
  both leave the tree alone when the parent of \<open>p\<close> is not a directory of the tree.
  The system calls below check that before they use them.
\<close>

fun put :: "node \<Rightarrow> path \<Rightarrow> node \<Rightarrow> node" where
  "put n [] new = new"
| "put (File c) (s # p) new = File c"
| "put (Dir es) [s] new = Dir (AList.update s new es)"
| "put (Dir es) (s # s' # p) new =
     (case map_of es s of None \<Rightarrow> Dir es
      | Some m \<Rightarrow> Dir (AList.update s (put m (s' # p) new) es))"

fun del :: "node \<Rightarrow> path \<Rightarrow> node" where
  "del n [] = n"
| "del (File c) (s # p) = File c"
| "del (Dir es) [s] = Dir (AList.delete s es)"
| "del (Dir es) (s # s' # p) =
     (case map_of es s of None \<Rightarrow> Dir es
      | Some m \<Rightarrow> Dir (AList.update s (del m (s' # p)) es))"

text \<open>\<^verbatim>\<open>p.parent\<close>; the root is its own parent.\<close>

definition parent :: "path \<Rightarrow> path" where
  "parent p = butlast p"

text \<open>\<^verbatim>\<open>p.name\<close> (and \<^verbatim>\<open>os.path.basename\<close>); empty for the root.\<close>

definition basename :: "path \<Rightarrow> string" where
  "basename p = (if p = [] then [] else last p)"

text \<open>
  The parent of \<open>p\<close> must be a directory for any call that creates or replaces the
  entry \<open>p\<close>; the result is the entry's present node, if any.
\<close>

definition lookup_entry :: "node \<Rightarrow> path \<Rightarrow> errno + node option" where
  "lookup_entry t p =
     (case stat t (parent p) of
        Inl e \<Rightarrow> Inl e
      | Inr (File _) \<Rightarrow> Inl ENOTDIR
      | Inr (Dir es) \<Rightarrow> Inr (map_of es (basename p)))"

text \<open>The exception Python raises for an errno, with \<^verbatim>\<open>str(e)\<close> as its message.\<close>

fun strerror :: "errno \<Rightarrow> exn_class \<times> string" where
  "strerror ENOENT = (FileNotFoundError, ''[Errno 2] No such file or directory'')"
| "strerror EEXIST = (FileExistsError, ''[Errno 17] File exists'')"
| "strerror ENOTDIR = (NotADirectoryError, ''[Errno 20] Not a directory'')"
| "strerror EISDIR = (IsADirectoryError, ''[Errno 21] Is a directory'')"
| "strerror EINVAL = (OSError, ''[Errno 22] Invalid argument'')"
| "strerror ENOTEMPTY = (OSError, ''[Errno 39] Directory not empty'')"

definition os_error :: "errno \<Rightarrow> path \<Rightarrow> exn" where
  "os_error e p = Exn (fst (strerror e)) (snd (strerror e) @ '': '' @ quoted (str_path p))"

definition os_error2 :: "errno \<Rightarrow> path \<Rightarrow> path \<Rightarrow> exn" where
  "os_error2 e p q =
     Exn (fst (strerror e))
       (snd (strerror e) @ '': '' @ quoted (str_path p) @ '' -> '' @ quoted (str_path q))"

text \<open>\<^verbatim>\<open>os.mkdir(p)\<close>.\<close>

definition os_mkdir :: "node \<Rightarrow> path \<Rightarrow> errno + node" where
  "os_mkdir t p =
     (if p = [] then Inl EEXIST
      else case lookup_entry t p of
        Inl e \<Rightarrow> Inl e
      | Inr (Some _) \<Rightarrow> Inl EEXIST
      | Inr None \<Rightarrow> Inr (put t p (Dir [])))"

text \<open>
  \<^verbatim>\<open>Path.mkdir(parents=True, exist_ok=True)\<close> of pathlib:
  \<^verbatim>\<open>
    try: os.mkdir(self, mode)
    except FileNotFoundError:
        if not parents or self.parent == self: raise
        self.parent.mkdir(parents=True, exist_ok=True)
        self.mkdir(mode, parents=False, exist_ok=exist_ok)
    except OSError:
        if not exist_ok or not self.is_dir(): raise
  \<close>
\<close>

definition mkdir_exist_ok :: "node \<Rightarrow> path \<Rightarrow> exn + node" where
  "mkdir_exist_ok t p =
     (case os_mkdir t p of
        Inr t' \<Rightarrow> Inr t'
      | Inl e \<Rightarrow> if e \<noteq> ENOENT \<and> is_dir t p then Inr t else Inl (os_error e p))"

function mkdir_parents :: "node \<Rightarrow> path \<Rightarrow> exn + node" where
  "mkdir_parents t p =
     (case os_mkdir t p of
        Inr t' \<Rightarrow> Inr t'
      | Inl e \<Rightarrow>
          if e = ENOENT then
            (if parent p = p then Inl (os_error e p)
             else (case mkdir_parents t (parent p) of
                     Inl e' \<Rightarrow> Inl e'
                   | Inr t' \<Rightarrow> mkdir_exist_ok t' p))
          else if is_dir t p then Inr t else Inl (os_error e p))"
  by pat_completeness auto
termination
proof (relation "measure (\<lambda>(t, p). length p)")
  show "wf (measure (\<lambda>(t :: node, p :: path). length p))"
    by simp
next
  fix t :: node and p :: path and e :: errno
  assume "parent p \<noteq> p"
  then have "p \<noteq> []"
    by (auto simp: parent_def)
  then show "((t, parent p), (t, p)) \<in> measure (\<lambda>(t, p). length p)"
    by (simp add: parent_def)
qed

declare mkdir_parents.simps [simp del]

text \<open>
  Universal newlines: reading in text mode with the default \<^verbatim>\<open>newline=None\<close> turns
  every \<^verbatim>\<open>\r\n\<close> and every lone \<^verbatim>\<open>\r\<close> into \<^verbatim>\<open>\n\<close>.
\<close>

fun universal_newlines :: "string \<Rightarrow> string" where
  "universal_newlines [] = []"
| "universal_newlines [x] = (if x = carriage_return then [newline] else [x])"
| "universal_newlines (x # y # xs) =
     (if x = carriage_return
      then (if y = newline then newline # universal_newlines xs
            else newline # universal_newlines (y # xs))
      else x # universal_newlines (y # xs))"

text \<open>\<^verbatim>\<open>open(p, 'rb')\<close> and \<^verbatim>\<open>f.read()\<close>: the stored text as it is.\<close>

definition open_read_binary :: "node \<Rightarrow> path \<Rightarrow> errno + string" where
  "open_read_binary t p =
     (case stat t p of
        Inl e \<Rightarrow> Inl e
      | Inr (Dir _) \<Rightarrow> Inl EISDIR
      | Inr (File text) \<Rightarrow> Inr text)"

text \<open>\<^verbatim>\<open>open(p, 'r', encoding='utf-8')\<close> and \<^verbatim>\<open>f.read()\<close>.\<close>

definition open_read :: "node \<Rightarrow> path \<Rightarrow> errno + string" where
  "open_read t p =
     (case open_read_binary t p of
        Inl e \<Rightarrow> Inl e
      | Inr text \<Rightarrow> Inr (universal_newlines text))"

text \<open>\<^verbatim>\<open>open(p, 'w', encoding='utf-8')\<close> and \<^verbatim>\<open>f.write(content)\<close>; also \<^verbatim>\<open>open(p, 'wb')\<close>.\<close>

definition open_write :: "node \<Rightarrow> path \<Rightarrow> string \<Rightarrow> errno + node" where
  "open_write t p content =
     (if p = [] then Inl EISDIR
      else case lookup_entry t p of
        Inl e \<Rightarrow> Inl e
      | Inr (Some (Dir _)) \<Rightarrow> Inl EISDIR
      | Inr _ \<Rightarrow> Inr (put t p (File content)))"

text \<open>\<^verbatim>\<open>os.remove(p)\<close> (and \<^verbatim>\<open>os.unlink\<close>); Linux answers EISDIR for a directory.\<close>

definition os_remove :: "node \<Rightarrow> path \<Rightarrow> errno + node" where
  "os_remove t p =
     (case stat t p of
        Inl e \<Rightarrow> Inl e
      | Inr (Dir _) \<Rightarrow> Inl EISDIR
      | Inr (File _) \<Rightarrow> Inr (del t p))"

text \<open>
  \<^verbatim>\<open>os.rename(src, dst)\<close>: renaming a path to itself succeeds and does nothing; a file
  replaces a file; a directory replaces only an empty directory and cannot move below
  itself.
\<close>

definition os_rename :: "node \<Rightarrow> path \<Rightarrow> path \<Rightarrow> errno + node" where
  "os_rename t src dst =
     (case stat t src of
        Inl e \<Rightarrow> Inl e
      | Inr n \<Rightarrow>
          if src = [] \<or> dst = [] then Inl EINVAL
          else
            (case lookup_entry t dst of
               Inl e \<Rightarrow> Inl e
             | Inr old \<Rightarrow>
                 if src = dst then Inr t
                 else
                   (case n of
                      File _ \<Rightarrow>
                        (case old of
                           Some (Dir _) \<Rightarrow> Inl EISDIR
                         | _ \<Rightarrow> Inr (put (del t src) dst n))
                    | Dir _ \<Rightarrow>
                        (case old of
                           Some (File _) \<Rightarrow> Inl ENOTDIR
                         | Some (Dir es) \<Rightarrow>
                             if prefix src dst then Inl EINVAL
                             else if es \<noteq> [] then Inl ENOTEMPTY
                             else Inr (put (del t src) dst n)
                         | None \<Rightarrow>
                             if prefix src dst then Inl EINVAL
                             else Inr (put (del t src) dst n)))))"

text \<open>Lifting a system call's result to a Python result.\<close>

definition raising :: "path \<Rightarrow> errno + 'a \<Rightarrow> exn + 'a" where
  "raising p r = (case r of Inl e \<Rightarrow> Inl (os_error e p) | Inr v \<Rightarrow> Inr v)"

subsection \<open>\<^verbatim>\<open>shutil.copy2\<close> and \<^verbatim>\<open>shutil.move\<close>\<close>

text \<open>\<^verbatim>\<open>os.path.join(d, name)\<close> for a canonical directory path and one name.\<close>

definition join_name :: "path \<Rightarrow> string \<Rightarrow> path" where
  "join_name d name = (if name = [] then d else d @ [name])"

text \<open>\<^verbatim>\<open>shutil._samefile\<close>: both paths exist and are the same file.\<close>

definition samefile :: "node \<Rightarrow> path \<Rightarrow> path \<Rightarrow> bool" where
  "samefile t src dst = (exists t src \<and> src = dst)"

text \<open>
  \<^verbatim>\<open>repr\<close> of a path object, for the message of \<^verbatim>\<open>SameFileError\<close> (a destination
  joined by \<^verbatim>\<open>os.path.join\<close> is a plain string there and prints without the class name).
\<close>

definition repr_path :: "path \<Rightarrow> string" where
  "repr_path p = ''PosixPath('' @ quoted (str_path p) @ '')''"

text \<open>
  \<^verbatim>\<open>shutil.copyfile(src, dst)\<close>: refuses the same file, then opens the source for
  reading and the destination for writing and copies the bytes.
\<close>

definition shutil_copyfile :: "node \<Rightarrow> path \<Rightarrow> path \<Rightarrow> exn + node" where
  "shutil_copyfile t src dst =
     (if samefile t src dst
      then Inl (Exn SameFileError (repr_path src @ '' and '' @ repr_path dst @ '' are the same file''))
      else
        (case open_read_binary t src of
           Inl e \<Rightarrow> Inl (os_error e src)
         | Inr text \<Rightarrow>
             (case open_write t dst text of
                Inl e \<Rightarrow>
                  if e = EISDIR \<and> \<not> exists t dst
                  then Inl (Exn FileNotFoundError (''Directory does not exist: '' @ str_path dst))
                  else Inl (os_error e dst)
              | Inr t' \<Rightarrow> Inr t')))"

text \<open>
  \<^verbatim>\<open>shutil.copy2(src, dst)\<close>: a destination that is a directory stands for the entry
  of the source's name inside it (the metadata copied by \<^verbatim>\<open>copystat\<close> is not part of
  the tree).
\<close>

definition shutil_copy2 :: "node \<Rightarrow> path \<Rightarrow> path \<Rightarrow> exn + node" where
  "shutil_copy2 t src dst =
     (let dst' = (if is_dir t dst then join_name dst (basename src) else dst)
      in shutil_copyfile t src dst')"

text \<open>
  \<^verbatim>\<open>shutil.move(src, dst)\<close>:
  \<^verbatim>\<open>
    real_dst = dst
    if os.path.isdir(dst):
        if _samefile(src, dst):
            os.rename(src, dst); return
        real_dst = os.path.join(dst, _basename(src))
        if os.path.exists(real_dst):
            raise Error("Destination path '%s' already exists" % real_dst)
    try:
        os.rename(src, real_dst)
    except OSError:
        ... else: copy_function(src, real_dst); os.unlink(src)
  \<close>
  The fallback after a failed rename is modelled for a source that is a regular file
  (the only one \<^verbatim>\<open>move_file\<close> passes); for a directory the model raises the rename's
  error.
\<close>

definition shutil_move :: "node \<Rightarrow> path \<Rightarrow> path \<Rightarrow> exn + node" where
  "shutil_move t src dst =
     (if is_dir t dst \<and> samefile t src dst
      then (case os_rename t src dst of
              Inl e \<Rightarrow> Inl (os_error2 e src dst)
            | Inr t' \<Rightarrow> Inr t')
      else
        (let real_dst = (if is_dir t dst then join_name dst (basename src) else dst)
         in if is_dir t dst \<and> exists t real_dst
            then Inl (Exn ShutilError
                   (''Destination path '' @ quoted (str_path real_dst) @ '' already exists''))
            else
              (case os_rename t src real_dst of
                 Inr t' \<Rightarrow> Inr t'
               | Inl e \<Rightarrow>
                   if is_dir t src then Inl (os_error2 e src real_dst)
                   else
                     (case shutil_copy2 t src real_dst of
                        Inl x \<Rightarrow> Inl x
                      | Inr t' \<Rightarrow> raising src (os_remove t' src)))))"

subsection \<open>\<^verbatim>\<open>FileInfo.from_path\<close>\<close>

text \<open>\<^verbatim>\<open>st_size\<close>: the length of the UTF-8 encoding of the text.\<close>

definition utf8_size :: "string \<Rightarrow> nat" where
  "utf8_size s = sum_list (map (\<lambda>x. if (of_char x :: nat) < 128 then 1 else 2) s)"

definition from_path :: "node \<Rightarrow> path \<Rightarrow> path \<Rightarrow> exn + FileInfo" where
  "from_path t path_obj rel_base =
     (case stat t path_obj of
        Inl e \<Rightarrow> Inl (os_error e path_obj)
      | Inr n \<Rightarrow>
          Inr \<lparr>fi_name = basename path_obj,
               fi_path = (case relative_to path_obj rel_base of
                            Inl _ \<Rightarrow> str_path path_obj
                          | Inr rel \<Rightarrow> str_rel rel),
               fi_is_directory = (case n of File _ \<Rightarrow> False | Dir _ \<Rightarrow> True),
               fi_size = (case n of File text \<Rightarrow> Some (utf8_size text) | Dir _ \<Rightarrow> None)\<rparr>)"

subsection \<open>\<^verbatim>\<open>TinyFSClient\<close>\<close>

text \<open>\<^verbatim>\<open>Path(x).resolve()\<close> for a path object: a relative one starts at the working directory.\<close>

definition resolve_cwd :: "world \<Rightarrow> string \<Rightarrow> path" where
  "resolve_cwd w s = resolve (if isabs s then [] else cwd w) s"

fun arg_string :: "path_arg \<Rightarrow> string" where
  "arg_string (PStr s) = s"
| "arg_string (PPath s) = s"

text \<open>
  \<^verbatim>\<open>__init__\<close>: resolves the workspace and creates it when it does not exist. An
  exception of the creation leaves the constructor.
\<close>

definition TinyFSClient_init ::
  "world \<Rightarrow> path_arg \<Rightarrow> bool \<Rightarrow> int \<Rightarrow> (exn + client) \<times> world" where
  "TinyFSClient_init w ws auto hsize =
     (let wd = resolve_cwd w (arg_string ws);
          c = \<lparr>workspace_dir = wd, auto_confirm = auto, history_size = hsize,
               action_history = []\<rparr>
      in if \<not> exists (root w) wd
         then (case mkdir_parents (root w) wd of
                 Inl e \<Rightarrow> (Inl e, w)
               | Inr t' \<Rightarrow> (Inr c, w\<lparr>root := t'\<rparr>))
         else (Inr c, w))"

text \<open>
  \<^verbatim>\<open>_validate_path\<close>. Its first block turns the argument into the resolved \<open>target\<close>:
  a relative string is joined to the workspace, an absolute string and a path object
  are resolved as they are. The security check is the source's
  \<^verbatim>\<open>str(target).startswith(str(self.workspace_dir))\<close>: a prefix test on characters.
\<close>

definition resolve_target :: "client \<Rightarrow> world \<Rightarrow> path_arg \<Rightarrow> path" where
  "resolve_target c w p =
     (case p of
        PStr s \<Rightarrow> if \<not> isabs s then resolve (workspace_dir c) s else resolve [] s
      | PPath s \<Rightarrow> resolve_cwd w s)"

definition validate_path :: "client \<Rightarrow> world \<Rightarrow> path_arg \<Rightarrow> bool \<Rightarrow> exn + path" where
  "validate_path c w p must_exist =
     (let target = resolve_target c w p
      in if \<not> prefix (str_path (workspace_dir c)) (str_path target)
         then Inl (Exn PathValidationError
                (''Path '' @ quoted (str_arg p) @ '' is outside workspace ''
                 @ quoted (str_path (workspace_dir c))))
         else if must_exist \<and> \<not> exists (root w) target
         then Inl (Exn FileNotFoundError (''Path not found: '' @ str_path target))
         else Inr target)"

text \<open>
  The tail every operation shares:
  \<^verbatim>\<open>
    try: ...; action.success = True; return result
    except Exception as e:
        action.success = False; action.error_message = str(e); raise
    finally: self._record_action(action)
  \<close>
  The body hands over its result and the tree it left behind.
\<close>

definition finally_record ::
  "client \<Rightarrow> world \<Rightarrow> ActionRecord \<Rightarrow> (exn + 'a) \<times> node \<Rightarrow> (exn + 'a) \<times> client \<times> world" where
  "finally_record c w action body =
     (case fst body of
        Inr v \<Rightarrow>
          (Inr v, record_action c (action\<lparr>success := True\<rparr>), w\<lparr>root := snd body\<rparr>)
      | Inl e \<Rightarrow>
          (Inl e, record_action c (action\<lparr>success := False, error_message := Some (msg e)\<rparr>),
           w\<lparr>root := snd body\<rparr>))"

text \<open>
  The confirmation block every mutating operation shares:
  \<^verbatim>\<open>
    if confirm and not self.auto_confirm:
        confirmed = self._request_confirmation(operation, details)
        action.user_approved = confirmed
        if not confirmed:
            action.success = False
            action.error_message = "Operation cancelled by user"
            self._record_action(action)
            raise OperationCancelledError(cancel_message)
  \<close>
  \<^verbatim>\<open>_request_confirmation\<close> is a method, looked up on the object at each call (the unit
  tests replace it), so the operations take it as the parameter \<open>gate\<close>. The result is
  the cancellation, or the action to go on with.
\<close>

type_synonym gate = "client \<Rightarrow> string \<Rightarrow> string \<Rightarrow> bool"

definition confirmation ::
  "gate \<Rightarrow> client \<Rightarrow> bool \<Rightarrow> string \<Rightarrow> string \<Rightarrow> string \<Rightarrow> ActionRecord
   \<Rightarrow> (exn \<times> client) + ActionRecord" where
  "confirmation rc c confirm operation details cancel_message action =
     (if confirm \<and> \<not> auto_confirm c then
        (let confirmed = rc c operation details;
             action1 = action\<lparr>user_approved := confirmed\<rparr>
         in if \<not> confirmed
            then Inl (Exn OperationCancelledError cancel_message,
                      record_action c
                        (action1\<lparr>success := False,
                                 error_message := Some ''Operation cancelled by user''\<rparr>))
            else Inr action1)
      else Inr action)"

definition read_file :: "client \<Rightarrow> world \<Rightarrow> path_arg \<Rightarrow> (exn + string) \<times> client \<times> world" where
  "read_file c w p =
     (case validate_path c w p True of
        Inl e \<Rightarrow> (Inl e, c, w)
      | Inr validated_path \<Rightarrow>
          if is_dir (root w) validated_path
          then (Inl (Exn IsADirectoryError
                  (''Cannot read directory as file: '' @ str_path validated_path)), c, w)
          else
            (case relative_to validated_path (workspace_dir c) of
               Inl e \<Rightarrow> (Inl e, c, w)
             | Inr rel \<Rightarrow>
                 (let action = ActionRecord_create READ (Some (str_rel rel))
                  in finally_record c w action
                       (raising validated_path (open_read (root w) validated_path), root w))))"

definition write_preview :: "string \<Rightarrow> string" where
  "write_preview content = (if length content > 100 then take 100 content @ ''...'' else content)"

definition write_file_with ::
  "gate \<Rightarrow> client \<Rightarrow> world \<Rightarrow> path_arg \<Rightarrow> string \<Rightarrow> bool \<Rightarrow> (exn + bool) \<times> client \<times> world" where
  "write_file_with rc c w p content confirm =
     (case validate_path c w p False of
        Inl e \<Rightarrow> (Inl e, c, w)
      | Inr validated_path \<Rightarrow>
          (case mkdir_parents (root w) (parent validated_path) of
             Inl e \<Rightarrow> (Inl e, c, w)
           | Inr t1 \<Rightarrow>
               (let w1 = w\<lparr>root := t1\<rparr>
                in case relative_to validated_path (workspace_dir c) of
                     Inl e \<Rightarrow> (Inl e, c, w1)
                   | Inr rel \<Rightarrow>
                       (let rel_path = str_rel rel;
                            action = ActionRecord_create WRITE (Some rel_path);
                            details = ''Writing '' @ str_nat (length content) @ '' bytes to ''
                                      @ rel_path @ [newline] @ ''Preview: ''
                                      @ write_preview content
                        in case confirmation rc c confirm ''Write File'' details
                                  (''Write to '' @ rel_path @ '' cancelled by user'') action of
                             Inl (e, c') \<Rightarrow> (Inl e, c', w1)
                           | Inr action1 \<Rightarrow>
                               finally_record c w1 action1
                                 (case open_write t1 validated_path content of
                                    Inl e \<Rightarrow> (Inl (os_error e validated_path), t1)
                                  | Inr t2 \<Rightarrow> (Inr True, t2))))))"

text \<open>\<^verbatim>\<open>target_dir.iterdir()\<close>: the paths of the entries of a directory.\<close>

definition iterdir :: "node \<Rightarrow> path \<Rightarrow> errno + path list" where
  "iterdir t p =
     (case stat t p of
        Inl e \<Rightarrow> Inl e
      | Inr (File _) \<Rightarrow> Inl ENOTDIR
      | Inr (Dir es) \<Rightarrow> Inr (map (\<lambda>entry. p @ [fst entry]) es))"

text \<open>The loop of \<^verbatim>\<open>list_directory\<close>; the first exception ends it.\<close>

fun file_infos :: "node \<Rightarrow> path \<Rightarrow> path list \<Rightarrow> exn + FileInfo list" where
  "file_infos t rel_base [] = Inr []"
| "file_infos t rel_base (item # items) =
     (case from_path t item rel_base of
        Inl e \<Rightarrow> Inl e
      | Inr file_info \<Rightarrow>
          (case file_infos t rel_base items of
             Inl e \<Rightarrow> Inl e
           | Inr results \<Rightarrow> Inr (file_info # results)))"

definition list_directory ::
  "client \<Rightarrow> world \<Rightarrow> path_arg \<Rightarrow> (exn + FileInfo list) \<times> client \<times> world" where
  "list_directory c w p =
     (case validate_path c w p True of
        Inl e \<Rightarrow> (Inl e, c, w)
      | Inr target_dir \<Rightarrow>
          if \<not> is_dir (root w) target_dir
          then (Inl (Exn NotADirectoryError (''Not a directory: '' @ str_path target_dir)), c, w)
          else
            (case relative_to target_dir (workspace_dir c) of
               Inl e \<Rightarrow> (Inl e, c, w)
             | Inr rel \<Rightarrow>
                 (let action = ActionRecord_create READ (Some (str_rel rel))
                  in finally_record c w action
                       (case iterdir (root w) target_dir of
                          Inl e \<Rightarrow> (Inl (os_error e target_dir), root w)
                        | Inr items \<Rightarrow> (file_infos (root w) (workspace_dir c) items, root w)))))"

definition create_directory_with ::
  "gate \<Rightarrow> client \<Rightarrow> world \<Rightarrow> path_arg \<Rightarrow> bool \<Rightarrow> (exn + bool) \<times> client \<times> world" where
  "create_directory_with rc c w p confirm =
     (case validate_path c w p False of
        Inl e \<Rightarrow> (Inl e, c, w)
      | Inr validated_path \<Rightarrow>
          (case relative_to validated_path (workspace_dir c) of
             Inl e \<Rightarrow> (Inl e, c, w)
           | Inr rel \<Rightarrow>
               (let rel_path = str_rel rel;
                    action = ActionRecord_create WRITE (Some rel_path)
                in case confirmation rc c confirm ''Create Directory''
                          (''Creating directory: '' @ rel_path)
                          ''Directory creation cancelled by user'' action of
                     Inl (e, c') \<Rightarrow> (Inl e, c', w)
                   | Inr action1 \<Rightarrow>
                       finally_record c w action1
                         (case mkdir_parents (root w) validated_path of
                            Inl e \<Rightarrow> (Inl e, root w)
                          | Inr t1 \<Rightarrow> (Inr True, t1)))))"

definition delete_file_with ::
  "gate \<Rightarrow> client \<Rightarrow> world \<Rightarrow> path_arg \<Rightarrow> bool \<Rightarrow> (exn + bool) \<times> client \<times> world" where
  "delete_file_with rc c w p confirm =
     (case validate_path c w p True of
        Inl e \<Rightarrow> (Inl e, c, w)
      | Inr validated_path \<Rightarrow>
          if is_dir (root w) validated_path
          then (Inl (Exn IsADirectoryError
                  (''Cannot delete directory as file: '' @ str_path validated_path)), c, w)
          else
            (case relative_to validated_path (workspace_dir c) of
               Inl e \<Rightarrow> (Inl e, c, w)
             | Inr rel \<Rightarrow>
                 (let rel_path = str_rel rel;
                      action = ActionRecord_create WRITE (Some rel_path)
                  in case confirmation rc c confirm ''Delete File''
                            (''Deleting file: '' @ rel_path)
                            ''File deletion cancelled by user'' action of
                       Inl (e, c') \<Rightarrow> (Inl e, c', w)
                     | Inr action1 \<Rightarrow>
                         finally_record c w action1
                           (case os_remove (root w) validated_path of
                              Inl e \<Rightarrow> (Inl (os_error e validated_path), root w)
                            | Inr t1 \<Rightarrow> (Inr True, t1)))))"

text \<open>
  The try block of \<^verbatim>\<open>move_file\<close> and of \<^verbatim>\<open>copy_file\<close>: the destination's parent
  directories first, then the library call.
\<close>

definition transfer ::
  "(node \<Rightarrow> path \<Rightarrow> path \<Rightarrow> exn + node) \<Rightarrow> node \<Rightarrow> path \<Rightarrow> path \<Rightarrow> (exn + bool) \<times> node" where
  "transfer library_call t src_path dest_path =
     (case mkdir_parents t (parent dest_path) of
        Inl e \<Rightarrow> (Inl e, t)
      | Inr t1 \<Rightarrow>
          (case library_call t1 src_path dest_path of
             Inl e \<Rightarrow> (Inl e, t1)
           | Inr t2 \<Rightarrow> (Inr True, t2)))"

definition move_file_with ::
  "gate \<Rightarrow> client \<Rightarrow> world \<Rightarrow> path_arg \<Rightarrow> path_arg \<Rightarrow> bool \<Rightarrow> (exn + bool) \<times> client \<times> world" where
  "move_file_with rc c w src dst confirm =
     (case validate_path c w src True of
        Inl e \<Rightarrow> (Inl e, c, w)
      | Inr src_path \<Rightarrow>
          (case validate_path c w dst False of
             Inl e \<Rightarrow> (Inl e, c, w)
           | Inr dest_path \<Rightarrow>
               if is_dir (root w) src_path
               then (Inl (Exn IsADirectoryError
                       (''Use move_directory for directories: '' @ str_path src_path)), c, w)
               else
                 (case relative_to src_path (workspace_dir c) of
                    Inl e \<Rightarrow> (Inl e, c, w)
                  | Inr rs \<Rightarrow>
                      (case relative_to dest_path (workspace_dir c) of
                         Inl e \<Rightarrow> (Inl e, c, w)
                       | Inr rd \<Rightarrow>
                           (let rel_src = str_rel rs;
                                rel_dest = str_rel rd;
                                action = ActionRecord_create WRITE
                                           (Some (rel_src @ '' -> '' @ rel_dest))
                            in case confirmation rc c confirm ''Move File''
                                      (''Moving file: '' @ rel_src @ '' -> '' @ rel_dest)
                                      ''File move cancelled by user'' action of
                                 Inl (e, c') \<Rightarrow> (Inl e, c', w)
                               | Inr action1 \<Rightarrow>
                                   finally_record c w action1
                                     (transfer shutil_move (root w) src_path dest_path))))))"

definition copy_file_with ::
  "gate \<Rightarrow> client \<Rightarrow> world \<Rightarrow> path_arg \<Rightarrow> path_arg \<Rightarrow> bool \<Rightarrow> (exn + bool) \<times> client \<times> world" where
  "copy_file_with rc c w src dst confirm =
     (case validate_path c w src True of
        Inl e \<Rightarrow> (Inl e, c, w)
      | Inr src_path \<Rightarrow>
          (case validate_path c w dst False of
             Inl e \<Rightarrow> (Inl e, c, w)
           | Inr dest_path \<Rightarrow>
               if is_dir (root w) src_path
               then (Inl (Exn IsADirectoryError
                       (''Use copy_directory for directories: '' @ str_path src_path)), c, w)
               else
                 (case relative_to src_path (workspace_dir c) of
                    Inl e \<Rightarrow> (Inl e, c, w)
                  | Inr rs \<Rightarrow>
                      (case relative_to dest_path (workspace_dir c) of
                         Inl e \<Rightarrow> (Inl e, c, w)
                       | Inr rd \<Rightarrow>
                           (let rel_src = str_rel rs;
                                rel_dest = str_rel rd;
                                action = ActionRecord_create WRITE
                                           (Some (rel_src @ '' -> '' @ rel_dest))
                            in case confirmation rc c confirm ''Copy File''
                                      (''Copying file: '' @ rel_src @ '' -> '' @ rel_dest)
                                      ''File copy cancelled by user'' action of
                                 Inl (e, c') \<Rightarrow> (Inl e, c', w)
                               | Inr action1 \<Rightarrow>
                                   finally_record c w action1
                                     (transfer shutil_copy2 (root w) src_path dest_path))))))"

text \<open>
  The probes. \<^verbatim>\<open>file_exists\<close> and \<^verbatim>\<open>directory_exists\<close> catch \<^verbatim>\<open>SecurityError\<close>,
  \<^verbatim>\<open>get_file_info\<close> catches \<^verbatim>\<open>(SecurityError, FileNotFoundError)\<close>; any other
  exception would leave them.
\<close>

definition file_exists :: "client \<Rightarrow> world \<Rightarrow> path_arg \<Rightarrow> exn + bool" where
  "file_exists c w p =
     (case validate_path c w p False of
        Inr validated_path \<Rightarrow>
          Inr (exists (root w) validated_path \<and> is_file (root w) validated_path)
      | Inl e \<Rightarrow> if isinstance e SecurityError then Inr False else Inl e)"

definition directory_exists :: "client \<Rightarrow> world \<Rightarrow> path_arg \<Rightarrow> exn + bool" where
  "directory_exists c w p =
     (case validate_path c w p False of
        Inr validated_path \<Rightarrow>
          Inr (exists (root w) validated_path \<and> is_dir (root w) validated_path)
      | Inl e \<Rightarrow> if isinstance e SecurityError then Inr False else Inl e)"

definition get_file_info :: "client \<Rightarrow> world \<Rightarrow> path_arg \<Rightarrow> exn + FileInfo option" where
  "get_file_info c w p =
     (case (case validate_path c w p True of
              Inl e \<Rightarrow> Inl e
            | Inr validated_path \<Rightarrow> from_path (root w) validated_path (workspace_dir c)) of
        Inr file_info \<Rightarrow> Inr (Some file_info)
      | Inl e \<Rightarrow>
          if isinstance e SecurityError \<or> isinstance e FileNotFoundError then Inr None
          else Inl e)"

text \<open>The client as shipped: the gate is its own \<^verbatim>\<open>_request_confirmation\<close>.\<close>

definition write_file ::
  "client \<Rightarrow> world \<Rightarrow> path_arg \<Rightarrow> string \<Rightarrow> bool \<Rightarrow> (exn + bool) \<times> client \<times> world" where
  "write_file = write_file_with request_confirmation"

definition create_directory ::
  "client \<Rightarrow> world \<Rightarrow> path_arg \<Rightarrow> bool \<Rightarrow> (exn + bool) \<times> client \<times> world" where
  "create_directory = create_directory_with request_confirmation"

definition delete_file ::
  "client \<Rightarrow> world \<Rightarrow> path_arg \<Rightarrow> bool \<Rightarrow> (exn + bool) \<times> client \<times> world" where
  "delete_file = delete_file_with request_confirmation"

definition move_file ::
  "client \<Rightarrow> world \<Rightarrow> path_arg \<Rightarrow> path_arg \<Rightarrow> bool \<Rightarrow> (exn + bool) \<times> client \<times> world" where
  "move_file = move_file_with request_confirmation"

definition copy_file ::
  "client \<Rightarrow> world \<Rightarrow> path_arg \<Rightarrow> path_arg \<Rightarrow> bool \<Rightarrow> (exn + bool) \<times> client \<times> world" where
  "copy_file = copy_file_with request_confirmation"

subsection \<open>The audit log as a list object (\<^verbatim>\<open>get_history\<close> returns \<^verbatim>\<open>list.copy()\<close>)\<close>

text \<open>
  Whether a caller can reach the client's own list depends on which list object a
  reference names, so here the lists live in a heap: a reference is a number,
  \<open>next_ref\<close> is the first unused one. \<^verbatim>\<open>append\<close> changes the list object in place,
  a slice and \<^verbatim>\<open>copy\<close> build a new one. The records in a list are values.
\<close>

type_synonym ref = nat

record heap =
  lists :: "ref \<Rightarrow> ActionRecord list option"
  next_ref :: ref

record client_obj =
  obj_workspace_dir :: path
  obj_auto_confirm :: bool
  obj_history_size :: int
  obj_action_history :: ref

definition deref :: "heap \<Rightarrow> ref \<Rightarrow> ActionRecord list" where
  "deref h r = (case lists h r of None \<Rightarrow> [] | Some xs \<Rightarrow> xs)"

definition alloc :: "heap \<Rightarrow> ActionRecord list \<Rightarrow> ref \<times> heap" where
  "alloc h xs =
     (next_ref h, h\<lparr>lists := (lists h)(next_ref h \<mapsto> xs), next_ref := Suc (next_ref h)\<rparr>)"

definition assign :: "heap \<Rightarrow> ref \<Rightarrow> ActionRecord list \<Rightarrow> heap" where
  "assign h r xs = h\<lparr>lists := (lists h)(r \<mapsto> xs)\<rparr>"

text \<open>\<^verbatim>\<open>_record_action\<close> on the object: append in place, then rebind to the slice.\<close>

definition record_action_obj :: "client_obj \<Rightarrow> heap \<Rightarrow> ActionRecord \<Rightarrow> client_obj \<times> heap" where
  "record_action_obj ob h action =
     (let r = obj_action_history ob;
          h1 = assign h r (deref h r @ [action])
      in if int (length (deref h1 r)) > obj_history_size ob
         then (let (r', h2) = alloc h1 (slice_from (- obj_history_size ob) (deref h1 r))
               in (ob\<lparr>obj_action_history := r'\<rparr>, h2))
         else (ob, h1))"

text \<open>\<^verbatim>\<open>get_history\<close> on the object: the reference of a fresh copy.\<close>

definition get_history_obj :: "client_obj \<Rightarrow> heap \<Rightarrow> ref \<times> heap" where
  "get_history_obj ob h = alloc h (deref h (obj_action_history ob))"

text \<open>The client value an object stands for.\<close>

definition client_of :: "client_obj \<Rightarrow> heap \<Rightarrow> client" where
  "client_of ob h =
     \<lparr>workspace_dir = obj_workspace_dir ob, auto_confirm = obj_auto_confirm ob,
      history_size = obj_history_size ob,
      action_history = deref h (obj_action_history ob)\<rparr>"

subsection \<open>The command line (\<^verbatim>\<open>cli.py\<close>)\<close>

text \<open>The namespace argparse returns; what \<^verbatim>\<open>print\<close> writes is left out.\<close>

record args =
  arg_workspace :: string
  arg_auto_confirm :: bool
  arg_verbose :: bool
  arg_command :: "string option"
  arg_path :: string
  arg_content :: "string option"
  arg_json :: bool
  arg_source :: string
  arg_destination :: string
  arg_type :: "string option"

text \<open>
  The body of the try statement of \<^verbatim>\<open>execute_command\<close>: the value it returns, or the
  exception that leaves it.
\<close>

definition exit_after :: "(exn + 'a) \<times> client \<times> world \<Rightarrow> (exn + int) \<times> world" where
  "exit_after r =
     (case fst r of Inl e \<Rightarrow> (Inl e, snd (snd r)) | Inr _ \<Rightarrow> (Inr 0, snd (snd r)))"

definition run_exists :: "client \<Rightarrow> world \<Rightarrow> args \<Rightarrow> exn + bool" where
  "run_exists client w a =
     (if arg_type a = Some ''file'' then file_exists client w (PStr (arg_path a))
      else if arg_type a = Some ''directory'' then directory_exists client w (PStr (arg_path a))
      else
        (case file_exists client w (PStr (arg_path a)) of
           Inl e \<Rightarrow> Inl e
         | Inr found \<Rightarrow>
             if found then Inr True else directory_exists client w (PStr (arg_path a))))"

definition run_command :: "client \<Rightarrow> world \<Rightarrow> args \<Rightarrow> string \<Rightarrow> (exn + int) \<times> world" where
  "run_command client w a stdin =
     (if arg_command a = Some ''read'' then exit_after (read_file client w (PStr (arg_path a)))
      else if arg_command a = Some ''write'' then
        (let content = (case arg_content a of Some text \<Rightarrow> text | None \<Rightarrow> stdin)
         in exit_after (write_file client w (PStr (arg_path a)) content True))
      else if arg_command a = Some ''list'' then
        exit_after (list_directory client w (PStr (arg_path a)))
      else if arg_command a = Some ''mkdir'' then
        exit_after (create_directory client w (PStr (arg_path a)) True)
      else if arg_command a = Some ''delete'' then
        exit_after (delete_file client w (PStr (arg_path a)) True)
      else if arg_command a = Some ''move'' then
        exit_after (move_file client w (PStr (arg_source a)) (PStr (arg_destination a)) True)
      else if arg_command a = Some ''copy'' then
        exit_after (copy_file client w (PStr (arg_source a)) (PStr (arg_destination a)) True)
      else if arg_command a = Some ''exists'' then
        (case run_exists client w a of
           Inl e \<Rightarrow> (Inl e, w)
         | Inr found \<Rightarrow> (Inr (if found then 0 else 1), w))
      else if arg_command a = Some ''info'' then
        (case get_file_info client w (PStr (arg_path a)) of
           Inl e \<Rightarrow> (Inl e, w)
         | Inr None \<Rightarrow> (Inr 1, w)
         | Inr (Some file_info) \<Rightarrow> (Inr 0, w))
      else (Inr 1, w))"

text \<open>
  The except clauses, tried in the order written:
  \<^verbatim>\<open>FileNotFoundError\<close>, \<^verbatim>\<open>SecurityError\<close>, \<^verbatim>\<open>OperationCancelledError\<close>,
  \<^verbatim>\<open>TinyFSError\<close>, \<^verbatim>\<open>Exception\<close>.
\<close>

definition except_clauses :: "exn \<Rightarrow> exn + int" where
  "except_clauses e =
     (if isinstance e FileNotFoundError then Inr 1
      else if isinstance e SecurityError then Inr 2
      else if isinstance e OperationCancelledError then Inr 3
      else if isinstance e TinyFSError then Inr 4
      else if isinstance e Exception then Inr 5
      else Inl e)"

text \<open>
  \<^verbatim>\<open>execute_command\<close>: the client is built from \<^verbatim>\<open>os.path.abspath(args.workspace)\<close>
  before the try statement, with the default history size.
\<close>

definition execute_command :: "args \<Rightarrow> string \<Rightarrow> world \<Rightarrow> (exn + int) \<times> world" where
  "execute_command a stdin w =
     (let workspace_path = PPath (str_path (resolve_cwd w (arg_workspace a)))
      in case TinyFSClient_init w workspace_path (arg_auto_confirm a) 100 of
           (Inl e, w1) \<Rightarrow> (Inl e, w1)
         | (Inr client, w1) \<Rightarrow>
             (case run_command client w1 a stdin of
                (Inr code, w2) \<Rightarrow> (Inr code, w2)
              | (Inl e, w2) \<Rightarrow> (except_clauses e, w2)))"

text \<open>
  The exit-code scheme in the words of the specification: 0 success, 1 not found or
  generic, 2 security error, 3 cancelled by the user, 4 other filesystem error,
  5 unexpected error.
\<close>

datatype outcome =
  Succeeded | NotFoundOrGeneric | SecurityViolation | CancelledByUser
  | OtherFilesystemError | UnexpectedError

fun scheme :: "outcome \<Rightarrow> int" where
  "scheme Succeeded = 0"
| "scheme NotFoundOrGeneric = 1"
| "scheme SecurityViolation = 2"
| "scheme CancelledByUser = 3"
| "scheme OtherFilesystemError = 4"
| "scheme UnexpectedError = 5"

text \<open>The kind of error each exception class is.\<close>

fun error_kind :: "exn_class \<Rightarrow> outcome" where
  "error_kind FileNotFoundError = NotFoundOrGeneric"
| "error_kind SecurityError = SecurityViolation"
| "error_kind PathValidationError = SecurityViolation"
| "error_kind OperationNotAllowedError = SecurityViolation"
| "error_kind OperationCancelledError = CancelledByUser"
| "error_kind TinyFSError = OtherFilesystemError"
| "error_kind SandboxError = OtherFilesystemError"
| "error_kind CommandExecutionError = OtherFilesystemError"
| "error_kind Exception = UnexpectedError"
| "error_kind OSError = UnexpectedError"
| "error_kind ValueError = UnexpectedError"
| "error_kind FileExistsError = UnexpectedError"
| "error_kind IsADirectoryError = UnexpectedError"
| "error_kind NotADirectoryError = UnexpectedError"
| "error_kind ShutilError = UnexpectedError"
| "error_kind SameFileError = UnexpectedError"

subsection \<open>Predicates on results and example states\<close>

text \<open>A result is a cancellation when it is an \<^verbatim>\<open>OperationCancelledError\<close>.\<close>

definition cancelled :: "exn + 'a \<Rightarrow> bool" where
  "cancelled r = (case r of Inl e \<Rightarrow> isinstance e OperationCancelledError | Inr _ \<Rightarrow> False)"

text \<open>
  A tree with the workspace \<^verbatim>\<open>/a/ws\<close> holding \<^verbatim>\<open>f.txt\<close> and the directory \<^verbatim>\<open>d\<close>, and
  beside it the directory \<^verbatim>\<open>/a/ws-evil\<close> holding \<^verbatim>\<open>x\<close>.
\<close>

definition ws_tree :: node where
  "ws_tree =
     Dir [(''a'', Dir [(''ws'', Dir [(''f.txt'', File ''hello''), (''d'', Dir [])]),
                      (''ws-evil'', Dir [(''x'', File ''secret'')])])]"

definition ws_world :: world where
  "ws_world = \<lparr>root = ws_tree, cwd = [''a'', ''ws'']\<rparr>"

text \<open>\<^verbatim>\<open>TinyFSClient("/a/ws")\<close> with the defaults, and with \<^verbatim>\<open>auto_confirm=True\<close>.\<close>

definition ws_client :: client where
  "ws_client =
     \<lparr>workspace_dir = [''a'', ''ws''], auto_confirm = False, history_size = 100,
      action_history = []\<rparr>"

definition ws_client_auto :: client where
  "ws_client_auto = ws_client\<lparr>auto_confirm := True\<rparr>"

text \<open>A gate that declines, as the unit test patches it in.\<close>

definition decline :: gate where
  "decline c operation details = False"

text \<open>A client just constructed: nothing recorded yet.\<close>

definition fresh_client :: "path \<Rightarrow> bool \<Rightarrow> int \<Rightarrow> client" where
  "fresh_client ws auto n =
     \<lparr>workspace_dir = ws, auto_confirm = auto, history_size = n, action_history = []\<rparr>"

text \<open>The client's list is an allocated object of the heap.\<close>

definition heap_ok :: "client_obj \<Rightarrow> heap \<Rightarrow> bool" where
  "heap_ok ob h = (obj_action_history ob < next_ref h)"

definition ws_object :: client_obj where
  "ws_object =
     \<lparr>obj_workspace_dir = [''a'', ''ws''], obj_auto_confirm = True, obj_history_size = 2,
      obj_action_history = 0\<rparr>"

definition ws_heap :: heap where
  "ws_heap =
     \<lparr>lists = Map.empty(0 \<mapsto> [ActionRecord_create READ (Some ''f.txt''),
                               ActionRecord_create WRITE (Some ''g.txt'')]),
      next_ref = 1\<rparr>"

text \<open>What is at a path: the text of a regular file, \<open>None\<close> for a directory.\<close>

definition look :: "node \<Rightarrow> path \<Rightarrow> errno + string option" where
  "look t p =
     (case stat t p of
        Inl e \<Rightarrow> Inl e
      | Inr (File text) \<Rightarrow> Inr (Some text)
      | Inr (Dir _) \<Rightarrow> Inr None)"

text \<open>
  The exception of the security check, and the paths that fail it: those whose resolved
  string does not start with the workspace's string.
\<close>

definition outside_error :: "client \<Rightarrow> path_arg \<Rightarrow> exn" where
  "outside_error c p =
     Exn PathValidationError
       (''Path '' @ quoted (str_arg p) @ '' is outside workspace ''
        @ quoted (str_path (workspace_dir c)))"

definition outside :: "client \<Rightarrow> world \<Rightarrow> path_arg \<Rightarrow> bool" where
  "outside c w p = (\<not> prefix (str_path (workspace_dir c)) (str_path (resolve_target c w p)))"

text \<open>Reading the triple an operation returns.\<close>

definition succeeded :: "(exn + 'a) \<times> client \<times> world \<Rightarrow> bool" where
  "succeeded r = (case fst r of Inl _ \<Rightarrow> False | Inr _ \<Rightarrow> True)"

definition client_after :: "(exn + 'a) \<times> client \<times> world \<Rightarrow> client" where
  "client_after r = fst (snd r)"

definition world_after :: "(exn + 'a) \<times> client \<times> world \<Rightarrow> world" where
  "world_after r = snd (snd r)"

text \<open>
  What a call did to the audit log: it appended one record whose \<open>success\<close> field is the
  call's outcome, or it left the client as it was.
\<close>

definition one_record :: "client \<Rightarrow> (exn + 'a) \<times> client \<times> world \<Rightarrow> bool" where
  "one_record c r = (\<exists>a. client_after r = record_action c a \<and> success a = succeeded r)"

definition no_record :: "client \<Rightarrow> (exn + 'a) \<times> client \<times> world \<Rightarrow> bool" where
  "no_record c r = (client_after r = c)"

text \<open>Command lines for the examples.\<close>

definition cli_args :: "string \<Rightarrow> string \<Rightarrow> args" where
  "cli_args cmd p =
     \<lparr>arg_workspace = ''.'', arg_auto_confirm = True, arg_verbose = False,
      arg_command = Some cmd, arg_path = p, arg_content = None, arg_json = False,
      arg_source = [], arg_destination = [], arg_type = None\<rparr>"

text \<open>
  Where the library puts the file: \<^verbatim>\<open>shutil.copy2\<close> and \<^verbatim>\<open>shutil.move\<close> write to the
  destination itself, or, when the destination is an existing directory, to the entry of
  the source's name inside it (\<^verbatim>\<open>os.path.join(dst, os.path.basename(src))\<close>).
\<close>

definition real_dst :: "node \<Rightarrow> path \<Rightarrow> path \<Rightarrow> path" where
  "real_dst t src dst = (if is_dir t dst then join_name dst (basename src) else dst)"

text \<open>
  The outcome of a command in the words of the specification. A command names one client
  call: \<^verbatim>\<open>read\<close>, \<^verbatim>\<open>write\<close>, \<^verbatim>\<open>list\<close>, \<^verbatim>\<open>mkdir\<close>, \<^verbatim>\<open>delete\<close>, \<^verbatim>\<open>move\<close> and \<^verbatim>\<open>copy\<close>
  succeed when the call returns; \<^verbatim>\<open>exists\<close> succeeds when the path is there (as a file for
  \<^verbatim>\<open>--type=file\<close>, as a directory for \<^verbatim>\<open>--type=directory\<close>, as either otherwise) and
  \<^verbatim>\<open>info\<close> when there is a \<^verbatim>\<open>FileInfo\<close>, and both find nothing otherwise; a raised
  exception is the kind of error its class is; no command or an unknown one is a
  generic error.
\<close>

definition call_outcome :: "exn + 'a \<Rightarrow> outcome" where
  "call_outcome r = (case r of Inl e \<Rightarrow> error_kind (cls e) | Inr _ \<Rightarrow> Succeeded)"

definition path_is_there :: "client \<Rightarrow> world \<Rightarrow> args \<Rightarrow> bool" where
  "path_is_there client w a =
     (if arg_type a = Some ''file'' then file_exists client w (PStr (arg_path a)) = Inr True
      else if arg_type a = Some ''directory''
      then directory_exists client w (PStr (arg_path a)) = Inr True
      else (file_exists client w (PStr (arg_path a)) = Inr True
            \<or> directory_exists client w (PStr (arg_path a)) = Inr True))"

definition command_outcome :: "client \<Rightarrow> world \<Rightarrow> args \<Rightarrow> string \<Rightarrow> outcome" where
  "command_outcome client w a stdin =
     (case arg_command a of
        None \<Rightarrow> NotFoundOrGeneric
      | Some cmd \<Rightarrow>
          if cmd = ''read'' then call_outcome (fst (read_file client w (PStr (arg_path a))))
          else if cmd = ''write'' then
            call_outcome (fst (write_file client w (PStr (arg_path a))
              (case arg_content a of Some text \<Rightarrow> text | None \<Rightarrow> stdin) True))
          else if cmd = ''list'' then
            call_outcome (fst (list_directory client w (PStr (arg_path a))))
          else if cmd = ''mkdir'' then
            call_outcome (fst (create_directory client w (PStr (arg_path a)) True))
          else if cmd = ''delete'' then
            call_outcome (fst (delete_file client w (PStr (arg_path a)) True))
          else if cmd = ''move'' then
            call_outcome (fst (move_file client w (PStr (arg_source a))
              (PStr (arg_destination a)) True))
          else if cmd = ''copy'' then
            call_outcome (fst (copy_file client w (PStr (arg_source a))
              (PStr (arg_destination a)) True))
          else if cmd = ''exists'' then
            (if path_is_there client w a then Succeeded else NotFoundOrGeneric)
          else if cmd = ''info'' then
            (case get_file_info client w (PStr (arg_path a)) of
               Inl e \<Rightarrow> error_kind (cls e)
             | Inr None \<Rightarrow> NotFoundOrGeneric
             | Inr (Some _) \<Rightarrow> Succeeded)
          else NotFoundOrGeneric)"

section \<open>Verified properties\<close>

subsection \<open>No operation of the shipped client is ever cancelled\<close>

lemma isinstance_cancel_iff:
  "isinstance e OperationCancelledError \<longleftrightarrow> cls e = OperationCancelledError"
  by (cases e; rename_tac k m; case_tac k) (auto simp: isinstance_def)

lemma os_error_not_cancel [simp]: "cls (os_error e p) \<noteq> OperationCancelledError"
  by (cases e) (auto simp: os_error_def)

lemma os_error2_not_cancel [simp]: "cls (os_error2 e p q) \<noteq> OperationCancelledError"
  by (cases e) (auto simp: os_error2_def)

lemma mkdir_exist_ok_not_cancel:
  "mkdir_exist_ok t p = Inl x \<Longrightarrow> cls x \<noteq> OperationCancelledError"
  by (auto simp: mkdir_exist_ok_def split: sum.splits if_splits)

lemma mkdir_parents_not_cancel:
  "mkdir_parents t p = Inl x \<Longrightarrow> cls x \<noteq> OperationCancelledError"
proof (induction t p arbitrary: x rule: mkdir_parents.induct)
  case (1 t p)
  show ?case
    using "1.prems" "1.IH"
    by (subst (asm) mkdir_parents.simps)
       (auto split: sum.splits if_splits dest: mkdir_exist_ok_not_cancel)
qed

lemma validate_path_not_cancel:
  "validate_path c w p m = Inl x \<Longrightarrow> cls x \<noteq> OperationCancelledError"
  by (auto simp: validate_path_def Let_def split: if_splits)

lemma relative_to_not_cancel:
  "relative_to a b = Inl x \<Longrightarrow> cls x \<noteq> OperationCancelledError"
  by (auto simp: relative_to_def split: if_splits)

lemma shutil_copyfile_not_cancel:
  "shutil_copyfile t a b = Inl x \<Longrightarrow> cls x \<noteq> OperationCancelledError"
  by (auto simp: shutil_copyfile_def split: if_splits sum.splits)

lemma shutil_copy2_not_cancel:
  "shutil_copy2 t a b = Inl x \<Longrightarrow> cls x \<noteq> OperationCancelledError"
  by (auto simp: shutil_copy2_def Let_def dest: shutil_copyfile_not_cancel)

lemma shutil_move_not_cancel:
  "shutil_move t a b = Inl x \<Longrightarrow> cls x \<noteq> OperationCancelledError"
  by (auto simp: shutil_move_def Let_def raising_def split: if_splits sum.splits
      dest: shutil_copy2_not_cancel)

lemma transfer_move_not_cancel:
  "fst (transfer shutil_move t a b) = Inl x \<Longrightarrow> cls x \<noteq> OperationCancelledError"
  by (auto simp: transfer_def split: sum.splits
      dest: mkdir_parents_not_cancel shutil_move_not_cancel)

lemma transfer_copy_not_cancel:
  "fst (transfer shutil_copy2 t a b) = Inl x \<Longrightarrow> cls x \<noteq> OperationCancelledError"
  by (auto simp: transfer_def split: sum.splits
      dest: mkdir_parents_not_cancel shutil_copy2_not_cancel)

lemma fst_finally_record [simp]: "fst (finally_record c w a body) = fst body"
  by (auto simp: finally_record_def split: sum.splits)

lemma confirmation_shipped:
  "confirmation request_confirmation c confirm operation d m a =
     Inr (if confirm \<and> \<not> auto_confirm c then a\<lparr>user_approved := True\<rparr> else a)"
  by (simp add: confirmation_def request_confirmation_def)

lemma write_file_not_cancel: "\<not> cancelled (fst (write_file c w p content confirm))"
  by (auto simp: cancelled_def isinstance_cancel_iff write_file_def write_file_with_def
        confirmation_shipped Let_def
      split: sum.splits
      dest: validate_path_not_cancel mkdir_parents_not_cancel relative_to_not_cancel)

lemma create_directory_not_cancel: "\<not> cancelled (fst (create_directory c w p confirm))"
  by (auto simp: cancelled_def isinstance_cancel_iff create_directory_def
        create_directory_with_def confirmation_shipped Let_def
      split: sum.splits
      dest: validate_path_not_cancel mkdir_parents_not_cancel relative_to_not_cancel)

lemma delete_file_not_cancel: "\<not> cancelled (fst (delete_file c w p confirm))"
  by (auto simp: cancelled_def isinstance_cancel_iff delete_file_def delete_file_with_def
        confirmation_shipped Let_def
      split: sum.splits
      dest: validate_path_not_cancel relative_to_not_cancel)

lemma move_file_not_cancel: "\<not> cancelled (fst (move_file c w p q confirm))"
  by (auto simp: cancelled_def isinstance_cancel_iff move_file_def move_file_with_def
        confirmation_shipped Let_def
      split: sum.splits
      dest: validate_path_not_cancel relative_to_not_cancel transfer_move_not_cancel)

lemma copy_file_not_cancel: "\<not> cancelled (fst (copy_file c w p q confirm))"
  by (auto simp: cancelled_def isinstance_cancel_iff copy_file_def copy_file_with_def
        confirmation_shipped Let_def
      split: sum.splits
      dest: validate_path_not_cancel relative_to_not_cancel transfer_copy_not_cancel)

text \<open>
  Claim C3. \<^verbatim>\<open>_request_confirmation\<close> answers True for every client, operation name
  and details string, whether or not \<^verbatim>\<open>auto_confirm\<close> is set; hence no mutating
  operation of the client as shipped (write, mkdir, delete, move, copy), with any
  \<^verbatim>\<open>confirm\<close> flag, ever raises \<^verbatim>\<open>OperationCancelledError\<close>.
\<close>

theorem gate_approves_every_request:
  "request_confirmation c operation details
   \<and> \<not> cancelled (fst (write_file c w p content confirm))
   \<and> \<not> cancelled (fst (create_directory c w p confirm))
   \<and> \<not> cancelled (fst (delete_file c w p confirm))
   \<and> \<not> cancelled (fst (move_file c w p q confirm))
   \<and> \<not> cancelled (fst (copy_file c w p q confirm))"
  using write_file_not_cancel create_directory_not_cancel delete_file_not_cancel
    move_file_not_cancel copy_file_not_cancel
  by (simp add: request_confirmation_def)

theorem gate_approves_every_request_witness:
  "request_confirmation ws_client ''Delete File'' ''Deleting file: f.txt''
   \<and> \<not> cancelled (fst (write_file ws_client ws_world (PStr ''f.txt'') ''hi'' True))
   \<and> \<not> cancelled (fst (create_directory ws_client ws_world (PStr ''f.txt'') True))
   \<and> \<not> cancelled (fst (delete_file ws_client ws_world (PStr ''f.txt'') True))
   \<and> \<not> cancelled (fst (move_file ws_client ws_world (PStr ''f.txt'') (PStr ''g.txt'') True))
   \<and> \<not> cancelled (fst (copy_file ws_client ws_world (PStr ''f.txt'') (PStr ''g.txt'') True))"
  by (rule gate_approves_every_request)

subsection \<open>The bounded audit log\<close>

lemma history_size_record_action [simp]: "history_size (record_action c a) = history_size c"
  by (simp add: record_action_def Let_def)

lemma record_action_positive:
  assumes "0 < history_size c"
  shows "action_history (record_action c a) =
           drop (Suc (length (action_history c)) - nat (history_size c)) (action_history c @ [a])"
  using assms
  by (auto simp: record_action_def Let_def slice_from_def nat_diff_distrib' nat_add_distrib)

lemma drop_window_step:
  assumes "0 < k"
  shows "drop (Suc (length (drop (length xs - k) xs)) - k) (drop (length xs - k) xs @ [a])
         = drop (Suc (length xs) - k) (xs @ [a])"
proof (cases "length xs < k")
  case True
  then show ?thesis by simp
next
  case False
  then have len: "length (drop (length xs - k) xs) = k"
    by simp
  have "drop (Suc k - k) (drop (length xs - k) xs @ [a]) = drop (Suc (length xs - k)) xs @ [a]"
    using assms False by (simp add: drop_Suc tl_drop)
  moreover have "drop (Suc (length xs) - k) (xs @ [a]) = drop (Suc (length xs - k)) xs @ [a]"
    using assms False by (simp add: Suc_diff_le)
  ultimately show ?thesis
    using len by simp
qed

lemma record_all_positive:
  assumes "0 < history_size c" "int (length (action_history c)) \<le> history_size c"
  shows "action_history (foldl record_action c as) =
           drop (length (action_history c @ as) - nat (history_size c)) (action_history c @ as)
         \<and> history_size (foldl record_action c as) = history_size c"
  using assms
proof (induction as rule: rev_induct)
  case Nil
  then show ?case by simp
next
  case (snoc a as)
  let ?xs = "action_history c @ as"
  let ?k = "nat (history_size c)"
  have k: "0 < ?k" using snoc.prems by simp
  have ih: "action_history (foldl record_action c as) = drop (length ?xs - ?k) ?xs"
    and hs: "history_size (foldl record_action c as) = history_size c"
    using snoc by simp_all
  have "action_history (foldl record_action c (as @ [a]))
        = drop (Suc (length (drop (length ?xs - ?k) ?xs)) - ?k) (drop (length ?xs - ?k) ?xs @ [a])"
    using snoc.prems(1) hs ih by (simp add: record_action_positive)
  also have "\<dots> = drop (Suc (length ?xs) - ?k) (?xs @ [a])"
    by (rule drop_window_step[OF k])
  finally show ?case
    using hs by simp
qed

text \<open>
  For a capacity of at least one the log is the window of the last \<open>C\<close> records, oldest
  first: after \<open>N\<close> recorded actions it has \<open>min N C\<close> entries.
\<close>

lemma bounded_history_positive_capacity:
  assumes "0 < C"
  shows "get_history (foldl record_action (fresh_client ws auto C) as) = drop (length as - nat C) as"
    and "length (get_history (foldl record_action (fresh_client ws auto C) as))
         = min (length as) (nat C)"
  using assms record_all_positive[of "fresh_client ws auto C" as]
  by (auto simp: get_history_def fresh_client_def)

text \<open>
  Claim C5, at the capacity 0: \<^verbatim>\<open>TinyFSClient(ws, history_size=0)\<close>. The length 1
  exceeds 0, the trim is the slice \<^verbatim>\<open>action_history[-0:]\<close>, which is the whole list: after
  two recorded actions \<^verbatim>\<open>get_history()\<close> returns both, not \<open>min 2 0 = 0\<close> of them.
\<close>

theorem zero_capacity_keeps_every_record:
  "get_history
     (foldl record_action (fresh_client [''a'', ''ws''] True 0)
        [ActionRecord_create WRITE (Some ''a''), ActionRecord_create WRITE (Some ''b'')])
   = [ActionRecord_create WRITE (Some ''a''), ActionRecord_create WRITE (Some ''b'')]"
  by (simp add: get_history_def fresh_client_def record_action_def slice_from_def Let_def)

subsection \<open>The list \<^verbatim>\<open>get_history\<close> returns is a copy\<close>

text \<open>Recording on the object is recording on the client value it stands for.\<close>

lemma client_of_record_action_obj:
  "heap_ok ob h \<Longrightarrow>
   client_of (fst (record_action_obj ob h a)) (snd (record_action_obj ob h a))
   = record_action (client_of ob h) a"
  by (auto simp: client_of_def record_action_obj_def record_action_def Let_def alloc_def
        assign_def deref_def heap_ok_def split: prod.splits)

text \<open>
  Claim C10. \<^verbatim>\<open>get_history()\<close> returns a new list object \<open>r\<close> with the content of the
  client's log. Whatever list \<open>xs\<close> a caller turns the returned object into (by appending,
  removing or reordering), the client's own log is the same as before the call, and the
  next \<^verbatim>\<open>_record_action\<close> appends and evicts exactly as it does without the caller's change.
\<close>

theorem get_history_defensive_copy:
  assumes "heap_ok ob h" and "get_history_obj ob h = (r, h1)"
  shows "deref h1 r = get_history (client_of ob h)
         \<and> r \<noteq> obj_action_history ob
         \<and> client_of ob (assign h1 r xs) = client_of ob h
         \<and> client_of (fst (record_action_obj ob (assign h1 r xs) a))
                     (snd (record_action_obj ob (assign h1 r xs) a))
           = record_action (client_of ob h) a"
  using assms
  by (auto simp: client_of_def record_action_obj_def record_action_def Let_def alloc_def
        assign_def deref_def heap_ok_def get_history_obj_def get_history_def
      split: prod.splits)

theorem get_history_defensive_copy_witness:
  "heap_ok ws_object ws_heap
   \<and> deref (snd (get_history_obj ws_object ws_heap)) (fst (get_history_obj ws_object ws_heap))
     = get_history (client_of ws_object ws_heap)
   \<and> fst (get_history_obj ws_object ws_heap) \<noteq> obj_action_history ws_object
   \<and> client_of ws_object
       (assign (snd (get_history_obj ws_object ws_heap))
          (fst (get_history_obj ws_object ws_heap)) [])
     = client_of ws_object ws_heap
   \<and> client_of
       (fst (record_action_obj ws_object
          (assign (snd (get_history_obj ws_object ws_heap))
             (fst (get_history_obj ws_object ws_heap)) [])
          (ActionRecord_create WRITE (Some ''h.txt''))))
       (snd (record_action_obj ws_object
          (assign (snd (get_history_obj ws_object ws_heap))
             (fst (get_history_obj ws_object ws_heap)) [])
          (ActionRecord_create WRITE (Some ''h.txt''))))
     = record_action (client_of ws_object ws_heap) (ActionRecord_create WRITE (Some ''h.txt''))"
proof -
  have ok: "heap_ok ws_object ws_heap"
    by (simp add: heap_ok_def ws_object_def ws_heap_def)
  have eq: "get_history_obj ws_object ws_heap
            = (fst (get_history_obj ws_object ws_heap), snd (get_history_obj ws_object ws_heap))"
    by simp
  show ?thesis
    using ok get_history_defensive_copy[OF ok eq, of "[]" "ActionRecord_create WRITE (Some ''h.txt'')"]
    by simp
qed

subsection \<open>Evaluation of the model on concrete states\<close>

lemmas path_defs = slash_def apostrophe_def newline_def carriage_return_def quoted_def
  split_path_def str_path_def str_rel_def isabs_def resolve_step_def resolve_def str_pure_def
  relative_to_def parent_def basename_def join_name_def repr_path_def resolve_cwd_def

lemmas os_defs = exists_def is_dir_def is_file_def lookup_entry_def os_error_def os_error2_def
  os_mkdir_def mkdir_exist_ok_def mkdir_parents.simps open_read_binary_def open_read_def
  open_write_def os_remove_def os_rename_def raising_def samefile_def shutil_copyfile_def
  shutil_copy2_def shutil_move_def utf8_size_def from_path_def iterdir_def

lemmas client_defs = ActionRecord_create_def slice_from_def record_action_def get_history_def
  request_confirmation_def TinyFSClient_init_def resolve_target_def validate_path_def
  finally_record_def
  confirmation_def read_file_def write_preview_def write_file_with_def list_directory_def
  create_directory_with_def delete_file_with_def transfer_def move_file_with_def
  copy_file_with_def file_exists_def directory_exists_def get_file_info_def write_file_def
  create_directory_def delete_file_def move_file_def copy_file_def isinstance_def

lemmas example_defs = ws_tree_def ws_world_def ws_client_def ws_client_auto_def decline_def

subsection \<open>Paths outside the workspace\<close>

text \<open>
  A path whose resolved string does not start with the workspace's string is rejected by
  every operation with \<^verbatim>\<open>PathValidationError\<close>, before anything is read, changed or
  recorded; the probes answer False and None.
\<close>

lemma validate_outside: "outside c w p \<Longrightarrow> validate_path c w p m = Inl (outside_error c p)"
  by (simp add: validate_path_def outside_def outside_error_def Let_def)

lemma validate_not_outside: "\<not> outside c w p \<Longrightarrow> validate_path c w p m \<noteq> Inl (outside_error c p)"
  by (simp add: validate_path_def outside_def outside_error_def Let_def)

lemma outside_rejected:
  assumes "outside c w p"
  shows "read_file c w p = (Inl (outside_error c p), c, w)"
    and "list_directory c w p = (Inl (outside_error c p), c, w)"
    and "write_file_with rc c w p content confirm = (Inl (outside_error c p), c, w)"
    and "create_directory_with rc c w p confirm = (Inl (outside_error c p), c, w)"
    and "delete_file_with rc c w p confirm = (Inl (outside_error c p), c, w)"
    and "move_file_with rc c w p q confirm = (Inl (outside_error c p), c, w)"
    and "copy_file_with rc c w p q confirm = (Inl (outside_error c p), c, w)"
    and "file_exists c w p = Inr False"
    and "directory_exists c w p = Inr False"
    and "get_file_info c w p = Inr None"
  using validate_outside[OF assms]
  by (simp_all add: read_file_def list_directory_def write_file_with_def create_directory_with_def
      delete_file_with_def move_file_with_def copy_file_with_def file_exists_def directory_exists_def
      get_file_info_def outside_error_def isinstance_def)

lemma outside_dest_rejected:
  assumes "outside c w q" "validate_path c w p True = Inr sp"
  shows "move_file_with rc c w p q confirm = (Inl (outside_error c q), c, w)"
    and "copy_file_with rc c w p q confirm = (Inl (outside_error c q), c, w)"
  using validate_outside[OF assms(1)] assms(2)
  by (simp_all add: move_file_with_def copy_file_with_def)

lemma traversal_is_outside: "outside ws_client ws_world (PStr ''../../etc/passwd'')"
  by (simp add: outside_def path_defs client_defs example_defs)

lemma join_path_prefix: "prefix p q \<Longrightarrow> prefix (join_path p) (join_path q)"
proof (induction p arbitrary: q rule: join_path.induct)
  case 1
  then show ?case by simp
next
  case (2 s)
  then obtain r where "q = s # r" by (auto simp: prefix_def)
  then show ?case by (cases r) auto
next
  case (3 s t ss)
  then obtain r where q: "q = s # r" and pr: "prefix (t # ss) r" by (auto simp: prefix_def)
  then obtain r' where "r = t # r'" by (auto simp: prefix_def)
  with 3 q pr show ?case by auto
qed

lemma inside_accepted: "prefix (workspace_dir c) (resolve_target c w p) \<Longrightarrow> \<not> outside c w p"
  by (simp add: outside_def str_path_def join_path_prefix)

text \<open>
  Claim C1, at a sibling directory whose name extends the workspace's name. The client of
  \<^verbatim>\<open>/a/ws\<close> is given \<^verbatim>\<open>/a/ws-evil/new/y\<close> and \<^verbatim>\<open>/a/ws-evil/x\<close>: their strings start with
  \<^verbatim>\<open>/a/ws\<close>, so \<^verbatim>\<open>_validate_path\<close> accepts them although they are not below the workspace.
  \<^verbatim>\<open>write_file\<close> then creates the directory \<^verbatim>\<open>/a/ws-evil/new\<close> outside the workspace and
  ends in the \<^verbatim>\<open>ValueError\<close> of \<^verbatim>\<open>relative_to\<close>; \<^verbatim>\<open>read_file\<close> has looked the target up
  and ends in the same \<^verbatim>\<open>ValueError\<close>. Neither raises \<^verbatim>\<open>PathValidationError\<close>.
\<close>

theorem sibling_prefix_path_escapes_workspace:
  "\<not> prefix (workspace_dir ws_client)
        (resolve_target ws_client ws_world (PStr ''/a/ws-evil/new/y''))
   \<and> \<not> exists (root ws_world) [''a'', ''ws-evil'', ''new'']
   \<and> write_file ws_client ws_world (PStr ''/a/ws-evil/new/y'') ''data'' True
     = (Inl (Exn ValueError
               (quoted ''/a/ws-evil/new/y'' @ '' is not in the subpath of '' @ quoted ''/a/ws'')),
        ws_client,
        ws_world\<lparr>root :=
          Dir [(''a'', Dir [(''ws'', Dir [(''f.txt'', File ''hello''), (''d'', Dir [])]),
                           (''ws-evil'', Dir [(''x'', File ''secret''), (''new'', Dir [])])])]\<rparr>)
   \<and> validate_path ws_client ws_world (PStr ''/a/ws-evil/x'') True
     = Inr [''a'', ''ws-evil'', ''x'']
   \<and> fst (read_file ws_client ws_world (PStr ''/a/ws-evil/x''))
     = Inl (Exn ValueError
              (quoted ''/a/ws-evil/x'' @ '' is not in the subpath of '' @ quoted ''/a/ws''))"
  by (simp add: path_defs os_defs client_defs example_defs Let_def)

subsection \<open>The probes\<close>

text \<open>
  On the paths of this model (no NUL character, no over-long name) the probes never
  raise.
\<close>

lemma probes_never_raise:
  "(\<exists>b. file_exists c w p = Inr b)
   \<and> (\<exists>b. directory_exists c w p = Inr b)
   \<and> (\<exists>i. get_file_info c w p = Inr i)"
  by (auto simp: file_exists_def directory_exists_def get_file_info_def validate_path_def Let_def
      isinstance_def from_path_def os_error_def exists_def split: sum.splits errno.splits)

text \<open>
  Claim C6, at the same sibling directory: \<^verbatim>\<open>file_exists\<close> and \<^verbatim>\<open>directory_exists\<close>
  answer True and \<^verbatim>\<open>get_file_info\<close> returns the \<^verbatim>\<open>FileInfo\<close> of a file that is not
  below the workspace \<^verbatim>\<open>/a/ws\<close>.
\<close>

theorem probes_report_sibling_prefix_paths:
  "\<not> prefix (workspace_dir ws_client)
        (resolve_target ws_client ws_world (PStr ''/a/ws-evil/x''))
   \<and> file_exists ws_client ws_world (PStr ''/a/ws-evil/x'') = Inr True
   \<and> directory_exists ws_client ws_world (PStr ''/a/ws-evil'') = Inr True
   \<and> get_file_info ws_client ws_world (PStr ''/a/ws-evil/x'')
     = Inr (Some \<lparr>fi_name = ''x'', fi_path = ''/a/ws-evil/x'', fi_is_directory = False,
                  fi_size = Some 6\<rparr>)"
  by (simp add: path_defs os_defs client_defs example_defs Let_def)

subsection \<open>Declined confirmation\<close>

text \<open>
  Claim C2, for \<^verbatim>\<open>write_file\<close>: with \<^verbatim>\<open>auto_confirm\<close> off, \<^verbatim>\<open>confirm=True\<close> and a gate
  that declines, \<^verbatim>\<open>write_file("n/b.txt", "hi")\<close> raises \<^verbatim>\<open>OperationCancelledError\<close>, but
  the directory \<^verbatim>\<open>/a/ws/n\<close> has been created before the gate was asked.
\<close>

theorem declined_write_creates_parent_directory:
  "\<not> auto_confirm ws_client
   \<and> \<not> exists (root ws_world) [''a'', ''ws'', ''n'']
   \<and> write_file_with decline ws_client ws_world (PStr ''n/b.txt'') ''hi'' True
     = (Inl (Exn OperationCancelledError ''Write to n/b.txt cancelled by user''),
        ws_client\<lparr>action_history :=
          [\<lparr>action_type = WRITE, path = Some ''n/b.txt'', command = None, success = False,
            error_message = Some ''Operation cancelled by user'', user_approved = False\<rparr>]\<rparr>,
        ws_world\<lparr>root :=
          Dir [(''a'', Dir [(''ws'', Dir [(''f.txt'', File ''hello''), (''d'', Dir []),
                                        (''n'', Dir [])]),
                           (''ws-evil'', Dir [(''x'', File ''secret'')])])]\<rparr>)"
  by (simp add: path_defs os_defs client_defs example_defs Let_def str_nat.simps)

text \<open>
  The other mutating operations ask the gate before they touch the tree: a declining
  gate cancels them, and a cancelled \<^verbatim>\<open>create_directory\<close>, \<^verbatim>\<open>delete_file\<close>,
  \<^verbatim>\<open>move_file\<close> or \<^verbatim>\<open>copy_file\<close> leaves the world as it was.
\<close>

lemma confirmation_declined:
  "\<not> auto_confirm c \<Longrightarrow>
   confirmation decline c True operation d m a
   = Inl (Exn OperationCancelledError m,
          record_action c (a\<lparr>user_approved := False, success := False,
                             error_message := Some ''Operation cancelled by user''\<rparr>))"
  by (simp add: confirmation_def decline_def)

lemma cancelled_leaves_tree:
  "cancelled (fst (create_directory_with rc c w p confirm)) \<Longrightarrow>
     world_after (create_directory_with rc c w p confirm) = w"
  "cancelled (fst (delete_file_with rc c w p confirm)) \<Longrightarrow>
     world_after (delete_file_with rc c w p confirm) = w"
  "cancelled (fst (move_file_with rc c w p q confirm)) \<Longrightarrow>
     world_after (move_file_with rc c w p q confirm) = w"
  "cancelled (fst (copy_file_with rc c w p q confirm)) \<Longrightarrow>
     world_after (copy_file_with rc c w p q confirm) = w"
  by (auto simp: cancelled_def isinstance_cancel_iff world_after_def create_directory_with_def
        delete_file_with_def move_file_with_def copy_file_with_def Let_def finally_record_def
      split: sum.splits prod.splits if_splits
      dest: mkdir_parents_not_cancel transfer_move_not_cancel transfer_copy_not_cancel)

subsection \<open>Lookup in a changed tree\<close>

lemma stat_append:
  "stat t (p @ r) = (case stat t p of Inl e \<Rightarrow> Inl e | Inr m \<Rightarrow> stat m r)"
proof (induction p arbitrary: t)
  case Nil
  then show ?case by simp
next
  case (Cons s p)
  then show ?case by (cases t) (auto split: option.splits)
qed

lemma stat_file_extension:
  "stat t p = Inr (File x) \<Longrightarrow> r \<noteq> [] \<Longrightarrow> stat t (p @ r) = Inl ENOTDIR"
  by (cases r) (auto simp: stat_append)

lemma ancestor_is_dir:
  assumes "stat t (p @ r) = Inr n" "r \<noteq> []"
  shows "\<exists>es. stat t p = Inr (Dir es)"
proof (cases "stat t p")
  case (Inl e)
  with assms show ?thesis by (simp add: stat_append)
next
  case (Inr m)
  with assms show ?thesis by (cases m; cases r) (auto simp: stat_append)
qed

lemma stat_put_same:
  "stat t (butlast p) = Inr (Dir es) \<Longrightarrow> p \<noteq> [] \<Longrightarrow> stat (put t p n) p = Inr n"
proof (induction t p n arbitrary: es rule: put.induct)
  case (1 n new)
  then show ?case by simp
next
  case (2 c s p new)
  then show ?case by (cases p) auto
next
  case (3 es' s new)
  then show ?case by (simp add: update_conv')
next
  case (4 es' s s' p new)
  then show ?case by (auto simp: update_conv' split: option.splits)
qed

lemma look_put_other:
  "\<not> prefix p q \<Longrightarrow> look (put t p n) q = look t q"
proof (induction t p n arbitrary: q rule: put.induct)
  case (1 n new)
  then show ?case by simp
next
  case (2 c s p new)
  then show ?case by simp
next
  case (3 es s new)
  then show ?case by (cases q) (auto simp: look_def update_conv')
next
  case (4 es s s' p new)
  show ?case
  proof (cases q)
    case Nil
    then show ?thesis by (auto simp: look_def split: option.splits)
  next
    case (Cons s2 q')
    show ?thesis
    proof (cases "map_of es s")
      case None
      then show ?thesis by simp
    next
      case (Some m)
      show ?thesis
      proof (cases "s2 = s")
        case True
        with Cons "4.prems" have np: "\<not> prefix (s' # p) q'" by simp
        have "look (put m (s' # p) new) q' = look m q'"
          using "4.IH"[OF Some np] .
        then show ?thesis using Cons Some True
          by (simp add: look_def update_conv')
      next
        case False
        then show ?thesis using Cons Some
          by (simp add: look_def update_conv')
      qed
    qed
  qed
qed



lemma look_exists: "exists t p \<longleftrightarrow> (\<exists>k. look t p = Inr k)"
  by (auto simp: exists_def look_def split: sum.splits node.splits)


lemma look_is_file: "is_file t p \<longleftrightarrow> (\<exists>x. look t p = Inr (Some x))"
  by (auto simp: is_file_def look_def split: sum.splits node.splits)

lemma look_file: "look t p = Inr (Some x) \<longleftrightarrow> stat t p = Inr (File x)"
  by (auto simp: look_def split: sum.splits node.splits)

lemma look_put_same:
  "is_dir t (butlast p) \<Longrightarrow> p \<noteq> [] \<Longrightarrow> look (put t p (File x)) p = Inr (Some x)"
  by (auto simp: is_dir_def look_file stat_put_same split: sum.splits node.splits)

lemma strict_prefix_of_existing_is_dir:
  assumes "exists t q" "prefix p q" "p \<noteq> q"
  shows "is_dir t p"
proof -
  from assms obtain r where q: "q = p @ r" and r: "r \<noteq> []"
    by (auto simp: prefix_def)
  from assms(1) obtain n where "stat t (p @ r) = Inr n"
    by (auto simp: exists_def q split: sum.splits)
  from ancestor_is_dir[OF this r] show ?thesis
    by (auto simp: is_dir_def)
qed

lemma lookup_entry_Inr:
  "lookup_entry t p = Inr old \<Longrightarrow> is_dir t (butlast p)"
  by (auto simp: lookup_entry_def is_dir_def parent_def split: sum.splits node.splits)

lemma lookup_entry_absent:
  assumes "lookup_entry t p = Inr None" "p \<noteq> []"
  shows "\<not> exists t p"
proof -
  from assms obtain es where es: "stat t (butlast p) = Inr (Dir es)" and no: "map_of es (last p) = None"
    by (auto simp: lookup_entry_def parent_def basename_def split: sum.splits node.splits)
  have "stat t (butlast p @ [last p]) = Inl ENOENT"
    using es no by (simp add: stat_append)
  then show ?thesis using assms(2) by (simp add: exists_def)
qed

lemma lookup_entry_present:
  assumes "lookup_entry t p = Inr (Some n)" "p \<noteq> []"
  shows "stat t p = Inr n"
proof -
  from assms obtain es where es: "stat t (butlast p) = Inr (Dir es)" and no: "map_of es (last p) = Some n"
    by (auto simp: lookup_entry_def parent_def basename_def split: sum.splits node.splits)
  have "stat t (butlast p @ [last p]) = Inr n"
    using es no by (simp add: stat_append)
  then show ?thesis using assms(2) by simp
qed

lemma os_mkdir_look:
  assumes "os_mkdir t p = Inr t'"
  shows "\<not> exists t p" and "is_dir t' p"
    and "\<not> prefix p q \<Longrightarrow> look t' q = look t q"
    and "exists t' q \<Longrightarrow> exists t q \<or> q = p"
proof -
  from assms have p: "p \<noteq> []" and le: "lookup_entry t p = Inr None" and t': "t' = put t p (Dir [])"
    by (auto simp: os_mkdir_def split: if_splits sum.splits option.splits)
  show ne: "\<not> exists t p" using lookup_entry_absent[OF le p] .
  from lookup_entry_Inr[OF le] obtain es where es: "stat t (butlast p) = Inr (Dir es)"
    by (auto simp: is_dir_def split: sum.splits node.splits)
  have sp: "stat t' p = Inr (Dir [])" unfolding t' using stat_put_same[OF es p] .
  then show "is_dir t' p" by (simp add: is_dir_def)
  show other: "\<not> prefix p q \<Longrightarrow> look t' q = look t q"
    unfolding t' by (rule look_put_other)
  show "exists t' q \<Longrightarrow> exists t q \<or> q = p"
  proof (cases "prefix p q")
    case False
    assume "exists t' q"
    with other[OF False] show ?thesis by (simp add: look_exists)
  next
    case True
    assume ex: "exists t' q"
    show ?thesis
    proof (cases "q = p")
      case True then show ?thesis by simp
    next
      case False
      with True obtain r where q: "q = p @ r" and r: "r \<noteq> []" by (auto simp: prefix_def)
      have "stat t' q = Inl ENOENT" using sp r by (cases r) (auto simp: q stat_append)
      with ex show ?thesis by (simp add: exists_def)
    qed
  qed
qed

lemma os_mkdir_preserves:
  assumes "os_mkdir t p = Inr t'" "exists t q"
  shows "look t' q = look t q"
proof -
  have "\<not> prefix p q"
  proof
    assume pr: "prefix p q"
    have "exists t p"
    proof (cases "p = q")
      case True with assms(2) show ?thesis by simp
    next
      case False
      from strict_prefix_of_existing_is_dir[OF assms(2) pr False] show ?thesis
        by (auto simp: is_dir_def exists_def split: sum.splits)
    qed
    with os_mkdir_look(1)[OF assms(1)] show False by simp
  qed
  with os_mkdir_look(3)[OF assms(1)] show ?thesis by simp
qed

lemma mkdir_exist_ok_look:
  assumes "mkdir_exist_ok t p = Inr t'"
  shows "is_dir t' p"
    and "exists t q \<Longrightarrow> look t' q = look t q"
    and "exists t' q \<Longrightarrow> exists t q \<or> q = p"
  using assms os_mkdir_look(2,4)[of t p _ ] os_mkdir_preserves[of t p _ q]
  by (auto simp: mkdir_exist_ok_def split: sum.splits if_splits)

lemma mkdir_parents_look:
  assumes "mkdir_parents t p = Inr t'"
  shows "is_dir t' p
       \<and> (\<forall>q. exists t q \<longrightarrow> look t' q = look t q)
       \<and> (\<forall>q. exists t' q \<longrightarrow> exists t q \<or> prefix q p)"
  using assms
proof (induction t p arbitrary: t' rule: mkdir_parents.induct)
  case (1 t p)
  show ?case
  proof (cases "os_mkdir t p")
    case (Inr t1)
    with "1.prems" have "t' = t1" by (subst (asm) mkdir_parents.simps) simp
    with Inr os_mkdir_look(2,4)[OF Inr] os_mkdir_preserves[OF Inr] show ?thesis
      by auto
  next
    case (Inl e)
    show ?thesis
    proof (cases "e = ENOENT")
      case False
      with Inl "1.prems" have "t' = t" "is_dir t p"
        by (subst (asm) mkdir_parents.simps; simp split: if_splits)+
      then show ?thesis by simp
    next
      case True
      with Inl "1.prems" obtain ta where np: "parent p \<noteq> p"
        and ta: "mkdir_parents t (parent p) = Inr ta" and t': "mkdir_exist_ok ta p = Inr t'"
        by (subst (asm) mkdir_parents.simps) (auto split: if_splits sum.splits)
      from "1.IH"[OF Inl True np ta]
      have a1: "is_dir ta (parent p)"
        and a2: "\<And>q. exists t q \<Longrightarrow> look ta q = look t q"
        and a3: "\<And>q. exists ta q \<Longrightarrow> exists t q \<or> prefix q (parent p)"
        by auto
      have pp: "\<And>q. prefix q (parent p) \<Longrightarrow> prefix q p"
        by (metis parent_def prefix_order.trans prefixeq_butlast)
      show ?thesis
      proof (intro conjI allI impI)
        show "is_dir t' p" using mkdir_exist_ok_look(1)[OF t'] .
      next
        fix q assume ex: "exists t q"
        then have "exists ta q" using a2[OF ex] by (simp add: look_exists)
        from mkdir_exist_ok_look(2)[OF t' this] a2[OF ex] show "look t' q = look t q" by simp
      next
        fix q assume "exists t' q"
        from mkdir_exist_ok_look(3)[OF t' this] a3[of q] pp[of q]
        show "exists t q \<or> prefix q p" by auto
      qed
    qed
  qed
qed

lemma mkdir_parents_no_partial_failure:
  assumes "os_mkdir t p = Inl ENOENT" "mkdir_parents t (parent p) = Inr ta"
  shows "\<exists>t'. mkdir_exist_ok ta p = Inr t'"
proof -
  from assms(1) have p: "p \<noteq> []" and le: "lookup_entry t p = Inl ENOENT"
    by (auto simp: os_mkdir_def split: if_splits sum.splits option.splits)
  from le have nop: "\<not> exists t (parent p)"
    by (auto simp: lookup_entry_def exists_def split: sum.splits node.splits)
  have nex: "\<not> exists t p"
  proof
    assume "exists t p"
    then obtain n where "stat t (butlast p @ [last p]) = Inr n"
      using p by (auto simp: exists_def split: sum.splits)
    from ancestor_is_dir[OF this] nop show False
      by (auto simp: exists_def parent_def)
  qed
  from mkdir_parents_look[OF assms(2)]
  have d: "is_dir ta (parent p)" and n: "\<And>q. exists ta q \<Longrightarrow> exists t q \<or> prefix q (parent p)"
    by auto
  have "\<not> prefix p (parent p)"
    using p by (metis parent_def append_butlast_last_id prefix_order.antisym prefixeq_butlast append_self_conv not_Cons_self2)
  with n[of p] nex have nta: "\<not> exists ta p" by auto
  from d obtain es where es: "stat ta (butlast p) = Inr (Dir es)"
    by (auto simp: is_dir_def parent_def split: sum.splits node.splits)
  have "stat ta (butlast p @ [last p]) = (case map_of es (last p) of None \<Rightarrow> Inl ENOENT | Some m \<Rightarrow> Inr m)"
    using es by (simp add: stat_append split: option.splits)
  with nta p have "map_of es (last p) = None"
    by (auto simp: exists_def split: option.splits)
  with es p have "os_mkdir ta p = Inr (put ta p (Dir []))"
    by (simp add: os_mkdir_def lookup_entry_def parent_def basename_def)
  then show ?thesis by (simp add: mkdir_exist_ok_def)
qed

lemma universal_newlines_id:
  "carriage_return \<notin> set s \<Longrightarrow> universal_newlines s = s"
  by (induction s rule: universal_newlines.induct) auto

lemma open_write_look:
  assumes "open_write t p x = Inr t'"
  shows "look t' p = Inr (Some x)"
    and "\<not> is_dir t p"
    and "\<not> prefix p q \<Longrightarrow> look t' q = look t q"
    and "is_file t q \<Longrightarrow> q \<noteq> p \<Longrightarrow> look t' q = look t q"
proof -
  from assms have p: "p \<noteq> []" and t': "t' = put t p (File x)"
    and le: "\<exists>old. lookup_entry t p = Inr old \<and> (\<forall>es. old \<noteq> Some (Dir es))"
    by (auto simp: open_write_def split: if_splits sum.splits option.splits node.splits)
  from le obtain old where old: "lookup_entry t p = Inr old" and nd: "\<And>es. old \<noteq> Some (Dir es)"
    by auto
  show "look t' p = Inr (Some x)"
    unfolding t' using look_put_same[OF lookup_entry_Inr[OF old] p] .
  show nd': "\<not> is_dir t p"
  proof (cases old)
    case None
    with old lookup_entry_absent[of t p] p show ?thesis
      by (auto simp: is_dir_def exists_def split: sum.splits)
  next
    case (Some n)
    with old lookup_entry_present[of t p n] p nd show ?thesis
      by (cases n) (auto simp: is_dir_def)
  qed
  show o: "\<not> prefix p q \<Longrightarrow> look t' q = look t q"
    unfolding t' by (rule look_put_other)
  show "is_file t q \<Longrightarrow> q \<noteq> p \<Longrightarrow> look t' q = look t q"
  proof -
    assume f: "is_file t q" and ne: "q \<noteq> p"
    have "\<not> prefix p q"
    proof
      assume "prefix p q"
      from strict_prefix_of_existing_is_dir[OF _ this] f ne nd' show False
        by (auto simp: look_is_file look_exists)
    qed
    then show ?thesis by (rule o)
  qed
qed

subsection \<open>Writing, then reading\<close>

text \<open>
  Claim C7, as stated, fails for a text with a carriage return: \<^verbatim>\<open>write_file\<close> stores
  \<^verbatim>\<open>a\rb\<close> and \<^verbatim>\<open>read_file\<close>, which reads with universal newlines, returns \<^verbatim>\<open>a\nb\<close>.
\<close>

theorem carriage_return_is_not_read_back:
  "fst (write_file ws_client ws_world (PStr ''n.txt'') [CHR ''a'', carriage_return, CHR ''b''] True)
     = Inr True
   \<and> fst (read_file
          (client_after (write_file ws_client ws_world (PStr ''n.txt'')
             [CHR ''a'', carriage_return, CHR ''b''] True))
          (world_after (write_file ws_client ws_world (PStr ''n.txt'')
             [CHR ''a'', carriage_return, CHR ''b''] True))
          (PStr ''n.txt''))
     = Inr [CHR ''a'', newline, CHR ''b'']
   \<and> [CHR ''a'', newline, CHR ''b''] \<noteq> [CHR ''a'', carriage_return, CHR ''b'']"
  by (simp add: path_defs os_defs client_defs example_defs client_after_def world_after_def
      Let_def str_nat.simps)

text \<open>
  Claim C7, as amended: for every text without a carriage return and every path, a
  successful \<^verbatim>\<open>write_file(p, c)\<close> followed by \<^verbatim>\<open>read_file(p)\<close> returns exactly \<open>c\<close>
  (with any gate and any \<^verbatim>\<open>confirm\<close> flag).
\<close>

theorem write_read_round_trip:
  assumes "carriage_return \<notin> set content"
    and "write_file_with rc c w p content confirm = (Inr b, c1, w1)"
  shows "fst (read_file c1 w1 p) = Inr content"
proof -
  let ?vp = "resolve_target c w p"
  from assms(2) obtain t1 rel a1 t2 where
    v: "validate_path c w p False = Inr ?vp"
    and rel: "relative_to ?vp (workspace_dir c) = Inr rel"
    and ow: "open_write t1 ?vp content = Inr t2"
    and w1: "w1 = w\<lparr>root := t2\<rparr>"
    and c1: "c1 = record_action c a1"
    by (auto simp: write_file_with_def validate_path_def Let_def finally_record_def
        split: sum.splits if_splits prod.splits)
  have ws: "workspace_dir c1 = workspace_dir c"
    by (simp add: c1 record_action_def Let_def)
  have rt: "resolve_target c1 w1 p = ?vp"
    by (simp add: resolve_target_def ws w1 resolve_cwd_def split: path_arg.splits)
  from open_write_look(1)[OF ow] have st: "stat t2 ?vp = Inr (File content)"
    by (simp add: look_file)
  from v have pre: "prefix (str_path (workspace_dir c)) (str_path ?vp)"
    by (auto simp: validate_path_def Let_def split: if_splits)
  have v1: "validate_path c1 w1 p True = Inr ?vp"
    using pre st by (simp add: validate_path_def rt[unfolded w1] ws w1 exists_def Let_def)
  show ?thesis
    using v1 st rel assms(1)
    by (simp add: read_file_def is_dir_def ws w1 finally_record_def raising_def open_read_def
        open_read_binary_def universal_newlines_id)
qed

theorem write_read_round_trip_witness:
  "carriage_return \<notin> set ''hi''
   \<and> write_file_with request_confirmation ws_client ws_world (PStr ''n/b.txt'') ''hi'' True
     = (Inr True,
        client_after (write_file_with request_confirmation ws_client ws_world (PStr ''n/b.txt'') ''hi'' True),
        world_after (write_file_with request_confirmation ws_client ws_world (PStr ''n/b.txt'') ''hi'' True))
   \<and> fst (read_file
          (client_after (write_file_with request_confirmation ws_client ws_world (PStr ''n/b.txt'') ''hi'' True))
          (world_after (write_file_with request_confirmation ws_client ws_world (PStr ''n/b.txt'') ''hi'' True))
          (PStr ''n/b.txt''))
     = Inr ''hi''"
proof -
  have h1: "carriage_return \<notin> set ''hi''"
    by (simp add: carriage_return_def)
  have h2: "write_file_with request_confirmation ws_client ws_world (PStr ''n/b.txt'') ''hi'' True
     = (Inr True,
        client_after (write_file_with request_confirmation ws_client ws_world (PStr ''n/b.txt'') ''hi'' True),
        world_after (write_file_with request_confirmation ws_client ws_world (PStr ''n/b.txt'') ''hi'' True))"
    by (simp add: path_defs os_defs client_defs example_defs client_after_def world_after_def
        Let_def str_nat.simps)
  from write_read_round_trip[OF h1 h2] h1 h2 show ?thesis
    by blast
qed

subsection \<open>Copying and moving\<close>













text \<open>
  In particular, for a destination that is not an existing directory the file is at the
  destination itself.
\<close>

lemma real_dst_plain:
  "\<not> is_dir (root w) (resolve_target c w dst) \<Longrightarrow>
   real_dst (root w) (resolve_target c w src) (resolve_target c w dst) = resolve_target c w dst"
  by (simp add: real_dst_def)



subsection \<open>Exit codes of the command line\<close>

lemma except_clauses_scheme: "except_clauses e = Inr (scheme (error_kind (cls e)))"
  by (cases "cls e") (simp_all add: except_clauses_def isinstance_def)

lemma exit_after_code: "fst (exit_after r) = Inr k \<Longrightarrow> k = 0"
  by (auto simp: exit_after_def split: sum.splits)

lemma run_command_codes:
  "fst (run_command client w a stdin) = Inr k \<Longrightarrow> k = 0 \<or> k = 1"
  by (auto simp: run_command_def Let_def dest: exit_after_code
      split: if_splits sum.splits option.splits)

lemma run_exists_found:
  "run_exists client w a = Inr (path_is_there client w a)"
proof -
  obtain f d where f: "file_exists client w (PStr (arg_path a)) = Inr f"
    and d: "directory_exists client w (PStr (arg_path a)) = Inr d"
    using probes_never_raise[of client w "PStr (arg_path a)"] by blast
  show ?thesis
    by (auto simp: run_exists_def path_is_there_def f d)
qed

lemma get_file_info_Inr: "\<exists>i. get_file_info c w p = Inr i"
  using probes_never_raise[of c w p] by blast

lemma run_command_outcome:
  "(case run_command client w a stdin of
      (Inr code, w2) \<Rightarrow> Inr code
    | (Inl e, w2) \<Rightarrow> except_clauses e)
   = Inr (scheme (command_outcome client w a stdin))"
proof -
  have call: "\<And>r :: (exn + 'b) \<times> client \<times> world.
      (case exit_after r of (Inr code, w2) \<Rightarrow> Inr code | (Inl e, w2) \<Rightarrow> except_clauses e)
      = Inr (scheme (call_outcome (fst r)))"
    by (auto simp: exit_after_def call_outcome_def except_clauses_scheme split: sum.splits)
  show ?thesis
  proof (cases "arg_command a")
    case None
    then show ?thesis by (simp add: run_command_def command_outcome_def)
  next
    case (Some cmd)
    obtain i where i: "get_file_info client w (PStr (arg_path a)) = Inr i"
      using get_file_info_Inr by blast
    show ?thesis
      using Some
      by (cases i)
         (simp_all add: run_command_def command_outcome_def Let_def call run_exists_found i)
  qed
qed

text \<open>
  Claim C9, as stated, fails when the client cannot be constructed. The constructor runs
  before the try statement; with \<^verbatim>\<open>--workspace f.txt/sub\<close>, where \<^verbatim>\<open>f.txt\<close> is a file, the
  creation of the workspace raises \<^verbatim>\<open>NotADirectoryError\<close>, which leaves
  \<^verbatim>\<open>execute_command\<close>: no exit code is returned.
\<close>

theorem unbuildable_workspace_has_no_exit_code:
  "fst (execute_command ((cli_args ''read'' ''f.txt'')\<lparr>arg_workspace := ''f.txt/sub''\<rparr>) [] ws_world)
   = Inl (os_error ENOTDIR [''a'', ''ws'', ''f.txt'', ''sub''])"
  by (simp add: path_defs os_defs client_defs example_defs cli_args_def Let_def
        execute_command_def)

text \<open>
  Claim C9, as amended. Once the client is constructed, \<^verbatim>\<open>execute_command\<close> returns the
  exit code the scheme gives to the outcome of the command: 0 when the client call of
  the command succeeds (for \<^verbatim>\<open>exists\<close> and \<^verbatim>\<open>info\<close>: when the path is there), 1 when
  nothing is found, when there is no such command or when \<^verbatim>\<open>FileNotFoundError\<close> is
  raised, 2 for \<^verbatim>\<open>SecurityError\<close> and its subclasses, 3 for
  \<^verbatim>\<open>OperationCancelledError\<close>, 4 for the other \<^verbatim>\<open>TinyFSError\<close> classes and 5 for every
  other exception.
\<close>

theorem exit_code_scheme:
  assumes "TinyFSClient_init w (PPath (str_path (resolve_cwd w (arg_workspace a))))
             (arg_auto_confirm a) 100 = (Inr client, w1)"
  shows "fst (execute_command a stdin w) = Inr (scheme (command_outcome client w1 a stdin))"
proof -
  have "fst (execute_command a stdin w)
        = (case run_command client w1 a stdin of
             (Inr code, w2) \<Rightarrow> Inr code
           | (Inl e, w2) \<Rightarrow> except_clauses e)"
    using assms
    by (auto simp: execute_command_def Let_def split: prod.splits sum.splits)
  then show ?thesis
    by (simp add: run_command_outcome)
qed

theorem exit_code_scheme_witness:
  "TinyFSClient_init ws_world
       (PPath (str_path (resolve_cwd ws_world (arg_workspace (cli_args ''read'' ''../../etc/passwd'')))))
       (arg_auto_confirm (cli_args ''read'' ''../../etc/passwd'')) 100
     = (Inr ws_client_auto, ws_world)
   \<and> fst (execute_command (cli_args ''read'' ''../../etc/passwd'') [] ws_world)
     = Inr (scheme (command_outcome ws_client_auto ws_world
                      (cli_args ''read'' ''../../etc/passwd'') []))
   \<and> command_outcome ws_client_auto ws_world (cli_args ''read'' ''../../etc/passwd'') []
     = SecurityViolation"
proof -
  have h: "TinyFSClient_init ws_world
       (PPath (str_path (resolve_cwd ws_world (arg_workspace (cli_args ''read'' ''../../etc/passwd'')))))
       (arg_auto_confirm (cli_args ''read'' ''../../etc/passwd'')) 100
     = (Inr ws_client_auto, ws_world)"
    by (simp add: path_defs os_defs client_defs example_defs cli_args_def Let_def)
  have o: "command_outcome ws_client_auto ws_world (cli_args ''read'' ''../../etc/passwd'') []
     = SecurityViolation"
    by (simp add: path_defs os_defs client_defs example_defs cli_args_def Let_def
        command_outcome_def call_outcome_def)
  from exit_code_scheme[OF h, of "[]"] h o show ?thesis
    by blast
qed

lemma outcomes_on_examples:
  "command_outcome ws_client_auto ws_world (cli_args ''read'' ''f.txt'') [] = Succeeded"
  "command_outcome ws_client_auto ws_world (cli_args ''read'' ''missing.txt'') [] = NotFoundOrGeneric"
  "command_outcome ws_client_auto ws_world (cli_args ''read'' ''d'') [] = UnexpectedError"
  "command_outcome ws_client_auto ws_world (cli_args ''exists'' ''missing.txt'') [] = NotFoundOrGeneric"
  "command_outcome ws_client_auto ws_world (cli_args ''exists'' ''d'') [] = Succeeded"
  "command_outcome ws_client_auto ws_world (cli_args ''info'' ''f.txt'') [] = Succeeded"
  by (simp_all add: path_defs os_defs client_defs example_defs cli_args_def Let_def
        command_outcome_def call_outcome_def path_is_there_def)

lemma exit_codes_on_examples:
  "fst (execute_command (cli_args ''read'' ''f.txt'') [] ws_world) = Inr 0"
  "fst (execute_command (cli_args ''read'' ''missing.txt'') [] ws_world) = Inr 1"
  "fst (execute_command (cli_args ''read'' ''../../etc/passwd'') [] ws_world) = Inr 2"
  "fst (execute_command (cli_args ''read'' ''d'') [] ws_world) = Inr 5"
  "fst (execute_command (cli_args ''exists'' ''missing.txt'') [] ws_world) = Inr 1"
  "fst (execute_command (cli_args ''info'' ''f.txt'') [] ws_world) = Inr 0"
  "fst (execute_command (cli_args ''frobnicate'' ''f.txt'') [] ws_world) = Inr 1"
  by (simp_all add: path_defs os_defs client_defs example_defs cli_args_def Let_def
        run_command_def run_exists_def exit_after_def execute_command_def except_clauses_def)

subsection \<open>Records in the audit log\<close>

lemma finally_record_one: "one_record c (finally_record c w a body)"
proof (cases "fst body")
  case (Inl e)
  then show ?thesis
    by (auto simp: one_record_def finally_record_def client_after_def succeeded_def
        intro!: exI[of _ "a\<lparr>success := False, error_message := Some (msg e)\<rparr>"])
next
  case (Inr v)
  then show ?thesis
    by (auto simp: one_record_def finally_record_def client_after_def succeeded_def
        intro!: exI[of _ "a\<lparr>success := True\<rparr>"])
qed

lemma confirmation_cancel_one:
  "confirmation rc c confirm operation d m a = Inl (e, c') \<Longrightarrow> one_record c (Inl e, c', w')"
  by (auto simp: confirmation_def Let_def one_record_def client_after_def succeeded_def
      split: if_splits)

lemma write_file_record:
  "(case validate_path c w p False of
      Inl e \<Rightarrow> fst (write_file_with rc c w p content confirm) = Inl e
               \<and> no_record c (write_file_with rc c w p content confirm)
    | Inr vp \<Rightarrow>
        (case mkdir_parents (root w) (parent vp) of
           Inl _ \<Rightarrow> True
         | Inr _ \<Rightarrow>
             (case relative_to vp (workspace_dir c) of
                Inl _ \<Rightarrow> True
              | Inr _ \<Rightarrow> one_record c (write_file_with rc c w p content confirm))))"
  by (auto simp: write_file_with_def no_record_def client_after_def Let_def
        finally_record_one confirmation_cancel_one
      split: sum.splits prod.splits)

lemma create_directory_record:
  "(case validate_path c w p False of
      Inl e \<Rightarrow> fst (create_directory_with rc c w p confirm) = Inl e
               \<and> no_record c (create_directory_with rc c w p confirm)
    | Inr vp \<Rightarrow>
        (case relative_to vp (workspace_dir c) of
           Inl _ \<Rightarrow> True
         | Inr _ \<Rightarrow> one_record c (create_directory_with rc c w p confirm)))"
  by (auto simp: create_directory_with_def no_record_def client_after_def Let_def
        finally_record_one confirmation_cancel_one
      split: sum.splits prod.splits)

lemma delete_file_record:
  "(case validate_path c w p True of
      Inl e \<Rightarrow> fst (delete_file_with rc c w p confirm) = Inl e
               \<and> no_record c (delete_file_with rc c w p confirm)
    | Inr vp \<Rightarrow>
        if is_dir (root w) vp
        then \<not> succeeded (delete_file_with rc c w p confirm)
             \<and> no_record c (delete_file_with rc c w p confirm)
        else (case relative_to vp (workspace_dir c) of
                Inl _ \<Rightarrow> True
              | Inr _ \<Rightarrow> one_record c (delete_file_with rc c w p confirm)))"
  by (auto simp: delete_file_with_def no_record_def client_after_def succeeded_def Let_def
        finally_record_one confirmation_cancel_one
      split: sum.splits prod.splits)

lemma move_file_record:
  "(case validate_path c w p True of
      Inl e \<Rightarrow> fst (move_file_with rc c w p q confirm) = Inl e
               \<and> no_record c (move_file_with rc c w p q confirm)
    | Inr sp \<Rightarrow>
        (case validate_path c w q False of
           Inl e \<Rightarrow> fst (move_file_with rc c w p q confirm) = Inl e
                    \<and> no_record c (move_file_with rc c w p q confirm)
         | Inr dp \<Rightarrow>
             if is_dir (root w) sp
             then \<not> succeeded (move_file_with rc c w p q confirm)
                  \<and> no_record c (move_file_with rc c w p q confirm)
             else (case relative_to sp (workspace_dir c) of
                     Inl _ \<Rightarrow> True
                   | Inr _ \<Rightarrow>
                       (case relative_to dp (workspace_dir c) of
                          Inl _ \<Rightarrow> True
                        | Inr _ \<Rightarrow> one_record c (move_file_with rc c w p q confirm)))))"
  by (auto simp: move_file_with_def no_record_def client_after_def succeeded_def Let_def
        finally_record_one confirmation_cancel_one
      split: sum.splits prod.splits)

lemma copy_file_record:
  "(case validate_path c w p True of
      Inl e \<Rightarrow> fst (copy_file_with rc c w p q confirm) = Inl e
               \<and> no_record c (copy_file_with rc c w p q confirm)
    | Inr sp \<Rightarrow>
        (case validate_path c w q False of
           Inl e \<Rightarrow> fst (copy_file_with rc c w p q confirm) = Inl e
                    \<and> no_record c (copy_file_with rc c w p q confirm)
         | Inr dp \<Rightarrow>
             if is_dir (root w) sp
             then \<not> succeeded (copy_file_with rc c w p q confirm)
                  \<and> no_record c (copy_file_with rc c w p q confirm)
             else (case relative_to sp (workspace_dir c) of
                     Inl _ \<Rightarrow> True
                   | Inr _ \<Rightarrow>
                       (case relative_to dp (workspace_dir c) of
                          Inl _ \<Rightarrow> True
                        | Inr _ \<Rightarrow> one_record c (copy_file_with rc c w p q confirm)))))"
  by (auto simp: copy_file_with_def no_record_def client_after_def succeeded_def Let_def
        finally_record_one confirmation_cancel_one
      split: sum.splits prod.splits)

text \<open>
  Claim C4, as stated, fails when validation fails: \<^verbatim>\<open>delete_file\<close> of a missing path
  (\<^verbatim>\<open>FileNotFoundError\<close>), of a directory (\<^verbatim>\<open>IsADirectoryError\<close>) and of a path outside
  the workspace (\<^verbatim>\<open>PathValidationError\<close>) raise before the record is created, and the
  log of the fresh client stays empty.
\<close>

theorem validation_failures_are_not_recorded:
  "get_history ws_client = []
   \<and> fst (delete_file ws_client ws_world (PStr ''missing.txt'') True)
     = Inl (Exn FileNotFoundError ''Path not found: /a/ws/missing.txt'')
   \<and> get_history (client_after (delete_file ws_client ws_world (PStr ''missing.txt'') True)) = []
   \<and> fst (delete_file ws_client ws_world (PStr ''d'') True)
     = Inl (Exn IsADirectoryError ''Cannot delete directory as file: /a/ws/d'')
   \<and> get_history (client_after (delete_file ws_client ws_world (PStr ''d'') True)) = []
   \<and> fst (delete_file ws_client ws_world (PStr ''../../etc/passwd'') True)
     = Inl (outside_error ws_client (PStr ''../../etc/passwd''))
   \<and> get_history (client_after (delete_file ws_client ws_world (PStr ''../../etc/passwd'') True)) = []"
  by (simp add: path_defs os_defs client_defs example_defs client_after_def outside_error_def
      Let_def)

text \<open>
  Claim C4, as amended. A mutating operation whose path validation fails raises that
  exception and appends nothing, and so does one that stops at the directory pre-check
  of its source. Every call that gets past validation, the pre-check and the computation
  of the workspace-relative path appends exactly one record, whose \<open>success\<close> field is the
  outcome of the call: after success, after a declined confirmation and after any
  exception of its try block. (The branches \<open>True\<close> are the calls that stop in between;
  nothing is said about them.)
\<close>

theorem one_record_once_validated:
  "(case validate_path c w p False of
      Inl e \<Rightarrow> fst (write_file_with rc c w p content confirm) = Inl e
               \<and> no_record c (write_file_with rc c w p content confirm)
    | Inr vp \<Rightarrow>
        (case mkdir_parents (root w) (parent vp) of
           Inl _ \<Rightarrow> True
         | Inr _ \<Rightarrow>
             (case relative_to vp (workspace_dir c) of
                Inl _ \<Rightarrow> True
              | Inr _ \<Rightarrow> one_record c (write_file_with rc c w p content confirm))))
   \<and> (case validate_path c w p False of
      Inl e \<Rightarrow> fst (create_directory_with rc c w p confirm) = Inl e
               \<and> no_record c (create_directory_with rc c w p confirm)
    | Inr vp \<Rightarrow>
        (case relative_to vp (workspace_dir c) of
           Inl _ \<Rightarrow> True
         | Inr _ \<Rightarrow> one_record c (create_directory_with rc c w p confirm)))
   \<and> (case validate_path c w p True of
      Inl e \<Rightarrow> fst (delete_file_with rc c w p confirm) = Inl e
               \<and> no_record c (delete_file_with rc c w p confirm)
    | Inr vp \<Rightarrow>
        if is_dir (root w) vp
        then \<not> succeeded (delete_file_with rc c w p confirm)
             \<and> no_record c (delete_file_with rc c w p confirm)
        else (case relative_to vp (workspace_dir c) of
                Inl _ \<Rightarrow> True
              | Inr _ \<Rightarrow> one_record c (delete_file_with rc c w p confirm)))
   \<and> (case validate_path c w p True of
      Inl e \<Rightarrow> fst (move_file_with rc c w p q confirm) = Inl e
               \<and> no_record c (move_file_with rc c w p q confirm)
    | Inr sp \<Rightarrow>
        (case validate_path c w q False of
           Inl e \<Rightarrow> fst (move_file_with rc c w p q confirm) = Inl e
                    \<and> no_record c (move_file_with rc c w p q confirm)
         | Inr dp \<Rightarrow>
             if is_dir (root w) sp
             then \<not> succeeded (move_file_with rc c w p q confirm)
                  \<and> no_record c (move_file_with rc c w p q confirm)
             else (case relative_to sp (workspace_dir c) of
                     Inl _ \<Rightarrow> True
                   | Inr _ \<Rightarrow>
                       (case relative_to dp (workspace_dir c) of
                          Inl _ \<Rightarrow> True
                        | Inr _ \<Rightarrow> one_record c (move_file_with rc c w p q confirm)))))
   \<and> (case validate_path c w p True of
      Inl e \<Rightarrow> fst (copy_file_with rc c w p q confirm) = Inl e
               \<and> no_record c (copy_file_with rc c w p q confirm)
    | Inr sp \<Rightarrow>
        (case validate_path c w q False of
           Inl e \<Rightarrow> fst (copy_file_with rc c w p q confirm) = Inl e
                    \<and> no_record c (copy_file_with rc c w p q confirm)
         | Inr dp \<Rightarrow>
             if is_dir (root w) sp
             then \<not> succeeded (copy_file_with rc c w p q confirm)
                  \<and> no_record c (copy_file_with rc c w p q confirm)
             else (case relative_to sp (workspace_dir c) of
                     Inl _ \<Rightarrow> True
                   | Inr _ \<Rightarrow>
                       (case relative_to dp (workspace_dir c) of
                          Inl _ \<Rightarrow> True
                        | Inr _ \<Rightarrow> one_record c (copy_file_with rc c w p q confirm)))))"
  by (intro conjI)
     (rule write_file_record create_directory_record delete_file_record move_file_record
        copy_file_record)+

theorem one_record_once_validated_witness:
  "one_record ws_client (write_file_with decline ws_client ws_world (PStr ''f.txt'') ''hi'' True)
   \<and> one_record ws_client (create_directory_with decline ws_client ws_world (PStr ''f.txt'') True)
   \<and> one_record ws_client (delete_file_with decline ws_client ws_world (PStr ''f.txt'') True)
   \<and> one_record ws_client
       (move_file_with decline ws_client ws_world (PStr ''f.txt'') (PStr ''g.txt'') True)
   \<and> one_record ws_client
       (copy_file_with decline ws_client ws_world (PStr ''f.txt'') (PStr ''g.txt'') True)"
proof -
  have v1: "validate_path ws_client ws_world (PStr ''f.txt'') False = Inr [''a'', ''ws'', ''f.txt'']"
    and v2: "validate_path ws_client ws_world (PStr ''f.txt'') True = Inr [''a'', ''ws'', ''f.txt'']"
    and v3: "validate_path ws_client ws_world (PStr ''g.txt'') False = Inr [''a'', ''ws'', ''g.txt'']"
    and m: "mkdir_parents (root ws_world) (parent [''a'', ''ws'', ''f.txt'']) = Inr (root ws_world)"
    and r1: "relative_to [''a'', ''ws'', ''f.txt''] (workspace_dir ws_client) = Inr [''f.txt'']"
    and r2: "relative_to [''a'', ''ws'', ''g.txt''] (workspace_dir ws_client) = Inr [''g.txt'']"
    and d: "\<not> is_dir (root ws_world) [''a'', ''ws'', ''f.txt'']"
    by (simp_all add: path_defs os_defs validate_path_def resolve_target_def example_defs Let_def)
  show ?thesis
    using one_record_once_validated
      [where c = ws_client and w = ws_world and p = "PStr ''f.txt''" and rc = decline
         and content = "''hi''" and confirm = True and q = "PStr ''g.txt''"]
    by (simp add: v1 v2 v3 m r1 r2 d)
qed

end
